theory Spec2Isabelle
  imports Main "HOL-Library.Word"
begin

section \<open>Values, exceptions and byte buffers\<close>

text \<open>
  The Python sources are \<^verbatim>\<open>client.py\<close>, \<^verbatim>\<open>monitor.py\<close>, \<^verbatim>\<open>data_types.py\<close> and
  \<^verbatim>\<open>exceptions.py\<close> of the package \<^verbatim>\<open>bystronic_opc\<close>.

  A \<^verbatim>\<open>bytes\<close> object is a list of 8-bit words. Python's integers are unbounded:
  they are \<open>int\<close>. A Python \<^verbatim>\<open>str\<close> that is the result of decoding is the list of
  its code points; the texts of exceptions and the hexadecimal renderings stay within
  ASCII and are HOL strings. A 64-bit float is kept as its IEEE-754 bit pattern, so
  \<^verbatim>\<open>0.0\<close> is the pattern \<open>0\<close>.
\<close>

type_synonym byte = "8 word"
type_synonym bytes = "byte list"
type_synonym pystr = "int list"
type_synonym float64 = "64 word"
type_synonym datetime = nat

text \<open>
  Exceptions. The last four classes are those of \<^verbatim>\<open>exceptions.py\<close> that the modelled
  code raises; the others are raised by the libraries the code calls (\<^verbatim>\<open>struct.error\<close>,
  \<^verbatim>\<open>UnicodeDecodeError\<close>, \<^verbatim>\<open>ValueError\<close>, \<^verbatim>\<open>KeyError\<close>, and any exception of the
  OPC UA transport). Each carries the text that \<^verbatim>\<open>str(e)\<close> gives.
\<close>

datatype pyexn =
    StructError string
  | UnicodeDecodeError string
  | ValueError string
  | KeyError string
  | TransportError string
  | ConnectionError string
  | DataError string
  | MethodCallError string

fun str_exn :: "pyexn \<Rightarrow> string" where
  "str_exn (StructError m) = m"
| "str_exn (UnicodeDecodeError m) = m"
| "str_exn (ValueError m) = m"
| "str_exn (KeyError m) = m"
| "str_exn (TransportError m) = m"
| "str_exn (ConnectionError m) = m"
| "str_exn (DataError m) = m"
| "str_exn (MethodCallError m) = m"

text \<open>\<^verbatim>\<open>isinstance(e, ConnectionError)\<close>, the test of the first handler of the monitor loop.\<close>

fun is_ConnectionError :: "pyexn \<Rightarrow> bool" where
  "is_ConnectionError (ConnectionError m) = True"
| "is_ConnectionError e = False"

text \<open>
  The slice \<^verbatim>\<open>b[i:j]\<close>: a negative index counts from the end, both indices are cut to
  the range of \<open>b\<close>, and the slice is empty when they cross. It never raises.
\<close>

definition clamp_index :: "int \<Rightarrow> nat \<Rightarrow> nat" where
  "clamp_index i n = (if i < 0 then nat (i + int n) else min (nat i) n)"

definition slice :: "int \<Rightarrow> int \<Rightarrow> 'a list \<Rightarrow> 'a list" where
  "slice i j xs =
     (let a = clamp_index i (length xs); b = clamp_index j (length xs)
      in take (b - a) (drop a xs))"

subsection \<open>\<^verbatim>\<open>struct.unpack\<close>, little-endian\<close>

fun le_int :: "bytes \<Rightarrow> int" where
  "le_int [] = 0"
| "le_int (b # bs) = uint b + 256 * le_int bs"

text \<open>
  \<^verbatim>\<open>struct.unpack(fmt, buf)\<close> raises \<^verbatim>\<open>struct.error\<close> unless \<open>buf\<close> has exactly the
  size of the format.
\<close>

definition unpack_IHH8s :: "bytes \<Rightarrow> pyexn + (int \<times> int \<times> int \<times> bytes)" where
  "unpack_IHH8s buf =
     (if length buf \<noteq> 16 then Inl (StructError ''unpack requires a buffer of 16 bytes'')
      else Inr (le_int (slice 0 4 buf), le_int (slice 4 6 buf), le_int (slice 6 8 buf),
                slice 8 16 buf))"

definition unpack_I :: "bytes \<Rightarrow> pyexn + int" where
  "unpack_I buf =
     (if length buf \<noteq> 4 then Inl (StructError ''unpack requires a buffer of 4 bytes'')
      else Inr (le_int buf))"

definition int32_of :: "bytes \<Rightarrow> int" where
  "int32_of buf = sint (word_of_int (le_int buf) :: 32 word)"

definition float64_of :: "bytes \<Rightarrow> float64" where
  "float64_of buf = word_of_int (le_int buf)"

definition unpack_ddd :: "bytes \<Rightarrow> pyexn + (float64 \<times> float64 \<times> float64)" where
  "unpack_ddd buf =
     (if length buf \<noteq> 24 then Inl (StructError ''unpack requires a buffer of 24 bytes'')
      else Inr (float64_of (slice 0 8 buf), float64_of (slice 8 16 buf),
                float64_of (slice 16 24 buf)))"

definition unpack_ii :: "bytes \<Rightarrow> pyexn + (int \<times> int)" where
  "unpack_ii buf =
     (if length buf \<noteq> 8 then Inl (StructError ''unpack requires a buffer of 8 bytes'')
      else Inr (int32_of (slice 0 4 buf), int32_of (slice 4 8 buf)))"

definition unpack_i :: "bytes \<Rightarrow> pyexn + int" where
  "unpack_i buf =
     (if length buf \<noteq> 4 then Inl (StructError ''unpack requires a buffer of 4 bytes'')
      else Inr (int32_of buf))"

definition unpack_d :: "bytes \<Rightarrow> pyexn + float64" where
  "unpack_d buf =
     (if length buf \<noteq> 8 then Inl (StructError ''unpack requires a buffer of 8 bytes'')
      else Inr (float64_of buf))"

subsection \<open>Hexadecimal text\<close>

definition hex_digit :: "int \<Rightarrow> char" where
  "hex_digit d = ''0123456789abcdef'' ! nat (d mod 16)"

text \<open>
  The digits of \<^verbatim>\<open>format(n, 'x')\<close> for \<open>n \<ge> 0\<close> (the unpacked fields are unsigned):
  no leading zero, one digit for \<open>0\<close>.
\<close>

function hexdigits :: "int \<Rightarrow> string" where
  "hexdigits n = (if n < 16 then [hex_digit n] else hexdigits (n div 16) @ [hex_digit (n mod 16)])"
  by pat_completeness auto
termination
  by (relation "measure nat") auto

declare hexdigits.simps [simp del]

text \<open>\<^verbatim>\<open>f"{n:0wx}"\<close>: the digits, padded on the left with zeros to at least \<open>w\<close> characters.\<close>

definition format_0x :: "nat \<Rightarrow> int \<Rightarrow> string" where
  "format_0x w n = replicate (w - length (hexdigits n)) (CHR ''0'') @ hexdigits n"

text \<open>\<^verbatim>\<open>bytes.hex()\<close>: two digits for each byte.\<close>

definition bytes_hex :: "bytes \<Rightarrow> string" where
  "bytes_hex bs = concat (map (\<lambda>b. [hex_digit (uint b div 16), hex_digit (uint b mod 16)]) bs)"

text \<open>
  The text built from the four unpacked parts in \<^verbatim>\<open>_decode_job_info\<close> (line 133) and
  twice in \<^verbatim>\<open>_decode_plan_info\<close> (lines 164 and 168):
  \<^verbatim>\<open>f"{p[0]:08x}-{p[1]:04x}-{p[2]:04x}-{p[3].hex()[:4]}-{p[3].hex()[4:]}"\<close>.
\<close>

definition guid_format :: "int \<times> int \<times> int \<times> bytes \<Rightarrow> string" where
  "guid_format p =
     (case p of (p0, p1, p2, p3) \<Rightarrow>
        format_0x 8 p0 @ ''-'' @ format_0x 4 p1 @ ''-'' @ format_0x 4 p2 @ ''-'' @
        take 4 (bytes_hex p3) @ ''-'' @ drop 4 (bytes_hex p3))"

subsection \<open>\<^verbatim>\<open>uuid.UUID\<close>\<close>

definition hex_val :: "char \<Rightarrow> int option" where
  "hex_val c = map_of (zip ''0123456789abcdefABCDEF''
                           [0, 1, 2, 3, 4, 5, 6, 7, 8, 9, 10, 11, 12, 13, 14, 15,
                            10, 11, 12, 13, 14, 15]) c"

fun int_hex :: "int \<Rightarrow> string \<Rightarrow> int option" where
  "int_hex acc [] = Some acc"
| "int_hex acc (c # cs) =
     (case hex_val c of None \<Rightarrow> None | Some d \<Rightarrow> int_hex (16 * acc + d) cs)"

text \<open>
  The constructor \<^verbatim>\<open>UUID(hex)\<close> of the standard library, on the texts the decoder gives
  it (hexadecimal digits and hyphens): it removes the hyphens, raises \<^verbatim>\<open>ValueError\<close>
  unless 32 characters remain, and reads them as one number in base 16. A UUID is that
  number. (The library also strips \<^verbatim>\<open>urn:\<close>, \<^verbatim>\<open>uuid:\<close> and braces first, which such a
  text never contains.)
\<close>

definition UUID :: "string \<Rightarrow> pyexn + int" where
  "UUID s =
     (let hex = filter (\<lambda>c. c \<noteq> CHR ''-'') s in
      if length hex \<noteq> 32 then Inl (ValueError ''badly formed hexadecimal UUID string'')
      else case int_hex 0 hex of
             None \<Rightarrow> Inl (ValueError ''invalid literal for int() with base 16'')
           | Some n \<Rightarrow> Inr n)"

subsection \<open>\<^verbatim>\<open>bytes.decode("utf-8")\<close>\<close>

definition is_cont :: "byte \<Rightarrow> bool" where
  "is_cont b = (128 \<le> uint b \<and> uint b \<le> 191)"

definition cont_val :: "byte \<Rightarrow> int" where
  "cont_val b = uint b - 128"

definition utf8_error :: pyexn where
  "utf8_error = UnicodeDecodeError ''utf-8 codec cannot decode bytes''"

definition cons_cp :: "int \<Rightarrow> pyexn + pystr \<Rightarrow> pyexn + pystr" where
  "cons_cp cp r = (case r of Inl e \<Rightarrow> Inl e | Inr s \<Rightarrow> Inr (cp # s))"

text \<open>
  The strict decoder: shortest form only, no surrogates, nothing above U+10FFFF. The text
  of the error is shortened (Python's names the byte and its position).
\<close>

fun utf8_decode :: "bytes \<Rightarrow> pyexn + pystr" where
  "utf8_decode [] = Inr []"
| "utf8_decode (b0 # bs) =
     (let n0 = uint b0 in
      if n0 < 128 then cons_cp n0 (utf8_decode bs)
      else if 194 \<le> n0 \<and> n0 \<le> 223 then
        (case bs of
           b1 # bs1 \<Rightarrow>
             if is_cont b1 then cons_cp ((n0 - 192) * 64 + cont_val b1) (utf8_decode bs1)
             else Inl utf8_error
         | _ \<Rightarrow> Inl utf8_error)
      else if 224 \<le> n0 \<and> n0 \<le> 239 then
        (case bs of
           b1 # b2 # bs2 \<Rightarrow>
             if is_cont b1 \<and> is_cont b2 \<and> (n0 = 224 \<longrightarrow> 160 \<le> uint b1)
                \<and> (n0 = 237 \<longrightarrow> uint b1 \<le> 159)
             then cons_cp ((n0 - 224) * 4096 + cont_val b1 * 64 + cont_val b2) (utf8_decode bs2)
             else Inl utf8_error
         | _ \<Rightarrow> Inl utf8_error)
      else if 240 \<le> n0 \<and> n0 \<le> 244 then
        (case bs of
           b1 # b2 # b3 # bs3 \<Rightarrow>
             if is_cont b1 \<and> is_cont b2 \<and> is_cont b3 \<and> (n0 = 240 \<longrightarrow> 144 \<le> uint b1)
                \<and> (n0 = 244 \<longrightarrow> uint b1 \<le> 143)
             then cons_cp ((n0 - 240) * 262144 + cont_val b1 * 4096 + cont_val b2 * 64
                           + cont_val b3) (utf8_decode bs3)
             else Inl utf8_error
         | _ \<Rightarrow> Inl utf8_error)
      else Inl utf8_error)"

section \<open>The record decoder (\<^verbatim>\<open>client.py\<close>, lines 121 to 200)\<close>

text \<open>The dataclasses \<^verbatim>\<open>JobInfo\<close> and \<^verbatim>\<open>PlanInfo\<close> of \<^verbatim>\<open>data_types.py\<close>.\<close>

record JobInfo =
  guid :: int
  name :: pystr
  file_path :: pystr
  created_at :: "datetime option"
  status :: "pystr option"

record PlanInfo =
  job_guid :: int
  plan_guid :: int
  plan_name :: pystr
  size_x :: float64
  size_y :: float64
  material_thickness :: float64
  total_runs :: int
  total_parts :: int
  plan_state :: int
  estimated_cut_time :: float64
  parameter_file :: "pystr option"

text \<open>
  Sequencing inside a \<^verbatim>\<open>try\<close> block: a statement that raises ends the block with its
  exception (\<open>Inl\<close>), otherwise the rest of the block runs on its value.
\<close>

definition try_bind :: "pyexn + 'a \<Rightarrow> ('a \<Rightarrow> pyexn + 'b) \<Rightarrow> pyexn + 'b" where
  "try_bind r f = (case r of Inl e \<Rightarrow> Inl e | Inr v \<Rightarrow> f v)"

text \<open>
  An extension object is \<^verbatim>\<open>None\<close> or an object whose \<^verbatim>\<open>Body\<close> is a byte string:
  a \<open>bytes option\<close>. The body of the \<^verbatim>\<open>try\<close> block of \<^verbatim>\<open>_decode_job_info\<close>, the
  statements in the order of the source; the two GUID texts are parsed last, where the
  source builds the dataclass.
\<close>

definition decode_job_body :: "bytes \<Rightarrow> pyexn + JobInfo option" where
  "decode_job_body body =
     (if length body < 36 then Inr None
      else
        try_bind (unpack_IHH8s (slice 0 16 body)) (\<lambda>guid_parts.
        let guid_str = guid_format guid_parts in
        try_bind (unpack_I (slice 32 36 body)) (\<lambda>name_length.
        try_bind (utf8_decode (slice 36 (36 + name_length) body)) (\<lambda>nm.
        let file_path_start = 36 + name_length in
        try_bind (unpack_I (slice file_path_start (file_path_start + 4) body)) (\<lambda>file_path_length.
        try_bind (utf8_decode (slice (file_path_start + 4)
                                     (file_path_start + 4 + file_path_length) body)) (\<lambda>fp.
        try_bind (UUID guid_str) (\<lambda>g.
          Inr (Some \<lparr>guid = g, name = nm, file_path = fp,
                     created_at = None, status = None\<rparr>))))))))"

definition decode_job_info :: "bytes option \<Rightarrow> pyexn + JobInfo option" where
  "decode_job_info extension_object =
     (case extension_object of
        None \<Rightarrow> Inr None
      | Some body \<Rightarrow>
          (case decode_job_body body of
             Inl e \<Rightarrow> Inl (DataError (''Failed to decode job info: '' @ str_exn e))
           | Inr r \<Rightarrow> Inr r))"

definition decode_plan_body :: "bytes \<Rightarrow> pyexn + PlanInfo option" where
  "decode_plan_body body =
     (if length body < 36 then Inr None
      else
        try_bind (unpack_IHH8s (slice 0 16 body)) (\<lambda>job_guid_parts.
        let job_guid_str = guid_format job_guid_parts in
        try_bind (unpack_IHH8s (slice 16 32 body)) (\<lambda>plan_guid_parts.
        let plan_guid_str = guid_format plan_guid_parts in
        try_bind (unpack_I (slice 32 36 body)) (\<lambda>name_length.
        try_bind (utf8_decode (slice 36 (36 + name_length) body)) (\<lambda>nm.
        let offset = 36 + name_length in
        try_bind (unpack_ddd (slice offset (offset + 24) body)) (\<lambda>(sx, sy, mt).
        let offset = offset + 24 in
        try_bind (unpack_ii (slice offset (offset + 8) body)) (\<lambda>(runs, parts).
        let offset = offset + 8 in
        try_bind (unpack_i (slice offset (offset + 4) body)) (\<lambda>st.
        let offset = offset + 4 in
        try_bind (unpack_d (slice offset (offset + 8) body)) (\<lambda>ect.
        try_bind (UUID job_guid_str) (\<lambda>jg.
        try_bind (UUID plan_guid_str) (\<lambda>pg.
          Inr (Some \<lparr>job_guid = jg, plan_guid = pg, plan_name = nm, size_x = sx, size_y = sy,
                     material_thickness = mt, total_runs = runs, total_parts = parts,
                     plan_state = st, estimated_cut_time = ect,
                     parameter_file = None\<rparr>))))))))))))"

definition decode_plan_info :: "bytes option \<Rightarrow> pyexn + PlanInfo option" where
  "decode_plan_info extension_object =
     (case extension_object of
        None \<Rightarrow> Inr None
      | Some body \<Rightarrow>
          (case decode_plan_body body of
             Inl e \<Rightarrow> Inl (DataError (''Failed to decode plan info: '' @ str_exn e))
           | Inr r \<Rightarrow> Inr r))"

text \<open>
  The two steps that turn a 16-byte region into a UUID, as both decoders perform them:
  unpack, format, and (when the dataclass is built) parse with \<^verbatim>\<open>UUID\<close>.
\<close>

definition guid_of_bytes :: "bytes \<Rightarrow> pyexn + int" where
  "guid_of_bytes region = try_bind (unpack_IHH8s region) (\<lambda>parts. UUID (guid_format parts))"

text \<open>
  Two notions used to state what the format yields. \<open>hexw w n\<close> is \<open>n\<close> in exactly
  \<open>w\<close> hexadecimal digits; \<open>guid_bytes\<close> lists the 16 bytes in the order in which
  the text shows them (the three integer fields are little-endian, so their bytes appear
  reversed).
\<close>

fun hexw :: "nat \<Rightarrow> int \<Rightarrow> string" where
  "hexw 0 n = []"
| "hexw (Suc w) n = hexw w (n div 16) @ [hex_digit (n mod 16)]"

definition guid_bytes :: "bytes \<Rightarrow> bytes" where
  "guid_bytes region =
     rev (slice 0 4 region) @ rev (slice 4 6 region) @ rev (slice 6 8 region) @ slice 8 16 region"

text \<open>\<^verbatim>\<open>s.split(c)\<close> for a separator of one character.\<close>

fun split_on :: "char \<Rightarrow> string \<Rightarrow> string list" where
  "split_on c [] = [[]]"
| "split_on c (x # xs) =
     (if x = c then [] # split_on c xs
      else (case split_on c xs of [] \<Rightarrow> [[x]] | g # gs \<Rightarrow> (x # g) # gs))"

section \<open>The client (\<^verbatim>\<open>client.py\<close>)\<close>

subsection \<open>Laser parameters (lines 307 to 331)\<close>

text \<open>
  What a node read gives, and what a field of the dataclass can hold (Python does not
  check the annotations of a dataclass): \<^verbatim>\<open>None\<close>, an integer or a float.
\<close>

datatype pyval = PyNone | PyInt int | PyFloat float64

record LaserParameters =
  current_laser_power :: pyval
  gas_channel :: pyval
  gas_pressure :: pyval
  laser_power_deviation :: pyval
  laser_power_setpoint :: pyval
  process_operation_mode :: pyval

definition LASER_NODES :: "string list" where
  "LASER_NODES =
     [''ns=2;s=Laser.CurrentLaserPower'',
      ''ns=2;s=Laser.GasChannel'',
      ''ns=2;s=Laser.GasPressure'',
      ''ns=2;s=Laser.LaserPowerDeviation'',
      ''ns=2;s=Laser.LaserPowerSetpoint'',
      ''ns=2;s=Laser.ProcessOperationMode'']"

text \<open>\<^verbatim>\<open>d.get(k, default)\<close>: the default is used only when the key is missing.\<close>

definition dict_get :: "('k \<rightharpoonup> 'v) \<Rightarrow> 'k \<Rightarrow> 'v \<Rightarrow> 'v" where
  "dict_get d k dflt = (case d k of None \<Rightarrow> dflt | Some v \<Rightarrow> v)"

text \<open>
  The \<^verbatim>\<open>for\<close> loop of \<^verbatim>\<open>get_laser_parameters\<close>. \<open>rd node_id\<close> is the outcome of
  \<^verbatim>\<open>get_node(node_id)\<close> followed by \<^verbatim>\<open>read_value()\<close>: the value, or the exception
  raised. Either way the key \<^verbatim>\<open>node_id.split('.')[-1]\<close> is stored.
\<close>

fun read_laser_nodes ::
  "(string \<Rightarrow> pyexn + pyval) \<Rightarrow> string list \<Rightarrow> (string \<rightharpoonup> pyval) \<Rightarrow> (string \<rightharpoonup> pyval)" where
  "read_laser_nodes rd [] values = values"
| "read_laser_nodes rd (node_id # rest) values =
     read_laser_nodes rd rest
       (case rd node_id of
          Inr v \<Rightarrow> values(last (split_on (CHR ''.'') node_id) \<mapsto> v)
        | Inl e \<Rightarrow> values(last (split_on (CHR ''.'') node_id) \<mapsto> PyNone))"

definition get_laser_parameters :: "(string \<Rightarrow> pyexn + pyval) \<Rightarrow> LaserParameters" where
  "get_laser_parameters rd =
     (let values = read_laser_nodes rd LASER_NODES Map.empty in
      \<lparr>current_laser_power = dict_get values ''CurrentLaserPower'' (PyFloat 0),
       gas_channel = dict_get values ''GasChannel'' (PyInt 0),
       gas_pressure = dict_get values ''GasPressure'' (PyFloat 0),
       laser_power_deviation = dict_get values ''LaserPowerDeviation'' (PyFloat 0),
       laser_power_setpoint = dict_get values ''LaserPowerSetpoint'' (PyFloat 0),
       process_operation_mode = dict_get values ''ProcessOperationMode'' (PyInt 0)\<rparr>)"

subsection \<open>The session (lines 55 to 93)\<close>

text \<open>
  The attributes of a \<^verbatim>\<open>BystronicClient\<close>; \<open>p_connected\<close> is \<^verbatim>\<open>_connected\<close>. The
  calls made on the underlying transport object \<^verbatim>\<open>_client\<close> are recorded in
  \<open>transport_calls\<close>, so that "the transport is not invoked" can be stated.
\<close>

datatype transport_call = TConnect | TDisconnect

record client =
  url :: string
  timeout :: int
  p_connected :: bool
  transport_calls :: "transport_call list"

definition BystronicClient :: "string \<Rightarrow> client" where
  "BystronicClient u = \<lparr>url = u, timeout = 10, p_connected = False, transport_calls = []\<rparr>"

text \<open>
  The outcome of a transport call is \<open>None\<close> when it returns and \<open>Some e\<close> when it
  raises \<open>e\<close>.
\<close>

definition connect :: "pyexn option \<Rightarrow> client \<Rightarrow> (pyexn + unit) \<times> client" where
  "connect outcome c =
     (let c1 = c\<lparr>transport_calls := transport_calls c @ [TConnect]\<rparr> in
      case outcome of
        None \<Rightarrow> (Inr (), c1\<lparr>p_connected := True\<rparr>)
      | Some e \<Rightarrow>
          (Inl (ConnectionError (''Failed to connect to '' @ url c @ '': '' @ str_exn e)), c1))"

definition disconnect :: "pyexn option \<Rightarrow> client \<Rightarrow> (pyexn + unit) \<times> client" where
  "disconnect outcome c =
     (if p_connected c then
        (let c1 = c\<lparr>transport_calls := transport_calls c @ [TDisconnect]\<rparr> in
         case outcome of
           None \<Rightarrow> (Inr (), c1\<lparr>p_connected := False\<rparr>)
         | Some e \<Rightarrow> (Inl e, c1))
      else (Inr (), c))"

subsection \<open>The status probe (lines 202 to 213 and 352 to 375)\<close>

record MachineStatus =
  machine_url :: string
  is_connected :: bool
  current_job :: "JobInfo option"
  laser_parameters :: "LaserParameters option"
  last_update :: "datetime option"
  error_message :: "string option"

text \<open>
  What the outside world does during one pass of the monitor loop: the outcome of the
  transport's connect, the outcome of reading the node \<^verbatim>\<open>Work.CurrentJob\<close> (an
  exception, or the extension object), the outcomes of the six node reads, and the clock.
\<close>

record env =
  connect_result :: "pyexn option"
  work_read :: "pyexn + bytes option"
  laser_read :: "string \<Rightarrow> pyexn + pyval"
  now :: datetime

definition get_current_job :: "env \<Rightarrow> pyexn + JobInfo option" where
  "get_current_job ev =
     (case try_bind (work_read ev) decode_job_info of
        Inl e \<Rightarrow> Inl (DataError (''Failed to get current job: '' @ str_exn e))
      | Inr job \<Rightarrow> Inr job)"

definition client_get_machine_status :: "client \<Rightarrow> env \<Rightarrow> MachineStatus" where
  "client_get_machine_status c ev =
     (case get_current_job ev of
        Inr job \<Rightarrow>
          \<lparr>machine_url = url c, is_connected = p_connected c, current_job = job,
           laser_parameters = Some (get_laser_parameters (laser_read ev)),
           last_update = Some (now ev), error_message = None\<rparr>
      | Inl e \<Rightarrow>
          \<lparr>machine_url = url c, is_connected = False, current_job = None,
           laser_parameters = None, last_update = Some (now ev),
           error_message = Some (str_exn e)\<rparr>)"

section \<open>The monitor (\<^verbatim>\<open>monitor.py\<close>)\<close>

text \<open>
  The attributes of a \<^verbatim>\<open>MachineMonitor\<close>; \<open>p_clients\<close>, \<open>p_status\<close> and
  \<open>p_monitoring\<close> are \<^verbatim>\<open>_clients\<close>, \<^verbatim>\<open>_status\<close> and \<^verbatim>\<open>_monitoring\<close>. The dictionary
  \<^verbatim>\<open>machines\<close> is the list of its items.
\<close>

record monitor =
  machines :: "(string \<times> string) list"
  update_interval :: int
  retry_attempts :: int
  p_clients :: "string \<rightharpoonup> client"
  p_status :: "string \<rightharpoonup> MachineStatus"
  p_monitoring :: bool

fun init_clients :: "(string \<times> string) list \<Rightarrow> monitor \<Rightarrow> monitor" where
  "init_clients [] m = m"
| "init_clients ((machine_name, u) # rest) m =
     init_clients rest
       (m\<lparr>p_clients := (p_clients m)(machine_name \<mapsto> BystronicClient u),
          p_status := (p_status m)(machine_name \<mapsto>
            \<lparr>machine_url = u, is_connected = False, current_job = None,
             laser_parameters = None, last_update = None, error_message = None\<rparr>)\<rparr>)"

definition MachineMonitor :: "(string \<times> string) list \<Rightarrow> int \<Rightarrow> int \<Rightarrow> monitor" where
  "MachineMonitor ms interval attempts =
     init_clients ms
       \<lparr>machines = ms, update_interval = interval, retry_attempts = attempts,
        p_clients = Map.empty, p_status = Map.empty, p_monitoring = False\<rparr>"

definition monitor_get_machine_status :: "monitor \<Rightarrow> string \<Rightarrow> MachineStatus option" where
  "monitor_get_machine_status m machine_name = p_status m machine_name"

definition start_monitoring :: "monitor \<Rightarrow> monitor" where
  "start_monitoring m = (if p_monitoring m then m else m\<lparr>p_monitoring := True\<rparr>)"

subsection \<open>The loop of one device (lines 89 to 142)\<close>

text \<open>
  The state the loops work on: the monitor, the local variable \<^verbatim>\<open>retry_count\<close> of each
  device's task, the calls of \<^verbatim>\<open>asyncio.sleep\<close> in the order they are made, with the
  device that made them, and the assignments \<^verbatim>\<open>self._status[machine_name] = ...\<close> that
  the loops have made, in order (the publications).
\<close>

record loop_state =
  mon :: monitor
  retry_count :: "string \<Rightarrow> int"
  sleeps :: "(string \<times> int) list"
  publications :: "(string \<times> MachineStatus) list"

definition set_client :: "string \<Rightarrow> client \<Rightarrow> loop_state \<Rightarrow> loop_state" where
  "set_client machine_name c s = s\<lparr>mon := (mon s)\<lparr>p_clients := (p_clients (mon s))(machine_name \<mapsto> c)\<rparr>\<rparr>"

definition publish :: "string \<Rightarrow> MachineStatus \<Rightarrow> loop_state \<Rightarrow> loop_state" where
  "publish machine_name st s =
     s\<lparr>mon := (mon s)\<lparr>p_status := (p_status (mon s))(machine_name \<mapsto> st)\<rparr>,
       publications := publications s @ [(machine_name, st)]\<rparr>"

definition sleep :: "string \<Rightarrow> int \<Rightarrow> loop_state \<Rightarrow> loop_state" where
  "sleep machine_name seconds s = s\<lparr>sleeps := sleeps s @ [(machine_name, seconds)]\<rparr>"

definition set_retry :: "string \<Rightarrow> int \<Rightarrow> loop_state \<Rightarrow> loop_state" where
  "set_retry machine_name n s = s\<lparr>retry_count := (retry_count s)(machine_name := n)\<rparr>"

text \<open>
  The \<^verbatim>\<open>try\<close> block (lines 99 to 113). It gives the exception that left it, if any, and
  the state at that moment.
\<close>

definition try_block :: "string \<Rightarrow> env \<Rightarrow> client \<Rightarrow> loop_state \<Rightarrow> pyexn option \<times> loop_state" where
  "try_block machine_name ev c s =
     (if \<not> p_connected c then
        (case connect (connect_result ev) c of
           (Inl e, c1) \<Rightarrow> (Some e, set_client machine_name c1 s)
         | (Inr u, c1) \<Rightarrow>
             (None,
              sleep machine_name (update_interval (mon s))
                (publish machine_name (client_get_machine_status c1 ev)
                  (set_retry machine_name 0 (set_client machine_name c1 s)))))
      else
        (None,
         sleep machine_name (update_interval (mon s))
           (publish machine_name (client_get_machine_status c ev) s)))"

text \<open>The handler \<^verbatim>\<open>except ConnectionError\<close> (lines 115 to 132).\<close>

definition on_connection_error :: "string \<Rightarrow> env \<Rightarrow> client \<Rightarrow> pyexn \<Rightarrow> loop_state \<Rightarrow> loop_state" where
  "on_connection_error machine_name ev c e s =
     (let s1 = set_retry machine_name (retry_count s machine_name + 1) s in
      if retry_count s1 machine_name \<le> retry_attempts (mon s1) then
        sleep machine_name (min (retry_count s1 machine_name * 10) 60) s1
      else
        set_retry machine_name 0
          (sleep machine_name (update_interval (mon s1))
            (publish machine_name
               \<lparr>machine_url = url c, is_connected = False, current_job = None,
                laser_parameters = None, last_update = Some (now ev),
                error_message = Some (str_exn e)\<rparr> s1)))"

text \<open>The handler \<^verbatim>\<open>except Exception\<close> (lines 134 to 142).\<close>

definition on_other_error :: "string \<Rightarrow> env \<Rightarrow> client \<Rightarrow> pyexn \<Rightarrow> loop_state \<Rightarrow> loop_state" where
  "on_other_error machine_name ev c e s =
     sleep machine_name (update_interval (mon s))
       (publish machine_name
          \<lparr>machine_url = url c, is_connected = False, current_job = None,
           laser_parameters = None, last_update = Some (now ev),
           error_message = Some (str_exn e)\<rparr> s)"

text \<open>
  One pass of the body of \<^verbatim>\<open>while self._monitoring\<close>. The client is the object
  \<^verbatim>\<open>self._clients[machine_name]\<close>; the loop is only entered when that key exists.
\<close>

definition monitor_iteration :: "string \<Rightarrow> env \<Rightarrow> loop_state \<Rightarrow> loop_state" where
  "monitor_iteration machine_name ev s =
     (case p_clients (mon s) machine_name of
        None \<Rightarrow> s
      | Some c \<Rightarrow>
          (case try_block machine_name ev c s of
             (None, s1) \<Rightarrow> s1
           | (Some e, s1) \<Rightarrow>
               (case p_clients (mon s1) machine_name of
                  None \<Rightarrow> s1
                | Some c1 \<Rightarrow>
                    if is_ConnectionError e then on_connection_error machine_name ev c1 e s1
                    else on_other_error machine_name ev c1 e s1)))"

text \<open>
  The loop runs one pass for each element of the list of environments, as long as
  \<^verbatim>\<open>_monitoring\<close> is set; the end of the list is the cancellation of the task.
\<close>

fun monitor_loop :: "string \<Rightarrow> env list \<Rightarrow> loop_state \<Rightarrow> loop_state" where
  "monitor_loop machine_name [] s = s"
| "monitor_loop machine_name (ev # evs) s =
     (if p_monitoring (mon s) then monitor_loop machine_name evs (monitor_iteration machine_name ev s)
      else s)"

definition monitor_machine :: "string \<Rightarrow> env list \<Rightarrow> loop_state \<Rightarrow> pyexn + loop_state" where
  "monitor_machine machine_name evs s =
     (case p_clients (mon s) machine_name of
        None \<Rightarrow> Inl (KeyError machine_name)
      | Some c \<Rightarrow> Inr (monitor_loop machine_name evs s))"

text \<open>
  The tasks of several devices interleave; a schedule names, pass by pass, the device
  whose loop runs next and what the world does during that pass.
\<close>

fun fleet_run :: "(string \<times> env) list \<Rightarrow> loop_state \<Rightarrow> loop_state" where
  "fleet_run [] s = s"
| "fleet_run ((machine_name, ev) # rest) s =
     (if p_monitoring (mon s) then fleet_run rest (monitor_iteration machine_name ev s) else s)"

definition start_state :: "monitor \<Rightarrow> loop_state" where
  "start_state m =
     \<lparr>mon = start_monitoring m, retry_count = (\<lambda>n. 0), sleeps = [], publications = []\<rparr>"

text \<open>The status that the constructor stores for a device with URL \<open>u\<close> (lines 43 to 46).\<close>

definition init_status :: "string \<Rightarrow> MachineStatus" where
  "init_status u = \<lparr>machine_url = u, is_connected = False, current_job = None,
                    laser_parameters = None, last_update = None, error_message = None\<rparr>"

text \<open>The invariant of a status: an error text only on a status that is not connected.\<close>

definition status_inv :: "MachineStatus \<Rightarrow> bool" where
  "status_inv st = (error_message st \<noteq> None \<longrightarrow> \<not> is_connected st)"

definition table_inv :: "monitor \<Rightarrow> bool" where
  "table_inv m = (\<forall>n st. p_status m n = Some st \<longrightarrow> status_inv st)"


subsection \<open>Concrete runs\<close>

text \<open>
  A monitor of one device after one pass in which the connect and the probe succeed (the
  device is then being polled), and a pass in which reading the current job fails with a
  connection error.
\<close>

definition s_polling :: loop_state where
  "s_polling = monitor_iteration ''L1''
      \<lparr>connect_result = None, work_read = Inr None,
       laser_read = (\<lambda>n. Inr (PyInt 1)), now = 1\<rparr>
      (start_state (MachineMonitor [(''L1'', ''u1'')] 30 3))"

definition ev_lost :: env where
  "ev_lost = \<lparr>connect_result = None, work_read = Inl (ConnectionError ''connection lost''),
              laser_read = (\<lambda>n. Inr (PyInt 1)), now = 2\<rparr>"

text \<open>A pass in which the transport refuses the connection.\<close>

definition ev_refused :: env where
  "ev_refused = \<lparr>connect_result = Some (TransportError ''refused''), work_read = Inr None,
                 laser_read = (\<lambda>n. Inr (PyInt 1)), now = 5\<rparr>"

text \<open>
  A plan record of 82 bytes: two different identifiers, the name \<^verbatim>\<open>AB\<close>, and 44 zero
  bytes for the numeric fields. And a region of 16 bytes for an identifier.
\<close>

definition plan_buffer :: bytes where
  "plan_buffer = [1, 2, 3, 4, 5, 6, 7, 8, 9, 10, 11, 12, 13, 14, 15, 16,
                  17, 18, 19, 20, 21, 22, 23, 24, 25, 26, 27, 28, 29, 30, 31, 32,
                  2, 0, 0, 0, 65, 66] @ replicate 44 0"

definition guid_region :: bytes where
  "guid_region = [0, 1, 2, 3, 4, 5, 6, 7, 8, 9, 10, 11, 12, 13, 14, 15]"

text \<open>The hyphen-separated groups of the text that the decoder builds for a region.\<close>

definition guid_groups :: "bytes \<Rightarrow> pyexn + string list" where
  "guid_groups region =
     try_bind (unpack_IHH8s region) (\<lambda>parts. Inr (split_on (CHR ''-'') (guid_format parts)))"

text \<open>
  A pass in which the connect and the probe succeed; a pass in which the node of the
  current job holds a record of 36 bytes that declares a name of 5 bytes; a monitor of two
  devices, and a schedule in which the first device fails to connect three times while the
  second is polled once.
\<close>

definition ev_ok :: env where
  "ev_ok = \<lparr>connect_result = None, work_read = Inr None,
            laser_read = (\<lambda>n. Inr (PyInt 1)), now = 1\<rparr>"

definition ev_bad_record :: env where
  "ev_bad_record = \<lparr>connect_result = None,
                    work_read = Inr (Some (replicate 32 0 @ [5, 0, 0, 0])),
                    laser_read = (\<lambda>n. Inr (PyInt 1)), now = 3\<rparr>"

definition two_devices :: monitor where
  "two_devices = MachineMonitor [(''L1'', ''u1''), (''L2'', ''u2'')] 30 3"

definition busy_schedule :: "(string \<times> env) list" where
  "busy_schedule =
     [(''L1'', ev_refused), (''L2'', ev_ok), (''L1'', ev_refused), (''L1'', ev_refused)]"

text \<open>
  The entry of every device that has not published yet is the entry \<open>p0\<close> had for it.
\<close>

definition unpublished_keep :: "(string \<rightharpoonup> MachineStatus) \<Rightarrow> loop_state \<Rightarrow> bool" where
  "unpublished_keep p0 s =
     (\<forall>n. n \<notin> fst ` set (publications s) \<longrightarrow> p_status (mon s) n = p0 n)"

text \<open>
  A well-formed plan record, in the words of the layout: at least the 36 bytes of the
  header, a name of the declared length \<open>L\<close> that is valid UTF-8, and after the name the
  44 bytes of the three floats, the three integers and the last float.
\<close>

definition well_formed_plan :: "bytes \<Rightarrow> bool" where
  "well_formed_plan body =
     (36 \<le> length body \<and>
      (\<exists>nm. utf8_decode (slice 36 (36 + le_int (slice 32 36 body)) body) = Inr nm) \<and>
      36 + le_int (slice 32 36 body) + 44 \<le> int (length body))"

section \<open>Properties of the record decoder\<close>

lemma slice_length:
  assumes "0 \<le> i" and "i \<le> j" and "nat j \<le> length xs"
  shows "length (slice i j xs) = nat (j - i)"
proof -
  have "nat i \<le> nat j" using assms by simp
  with assms show ?thesis
    unfolding slice_def clamp_index_def Let_def
    by (simp add: min_def nat_diff_distrib) arith
qed

lemma slice_past: "int (length xs) \<le> i \<Longrightarrow> slice i j xs = []"
  by (simp add: slice_def clamp_index_def Let_def)

lemma unpack_IHH8s_ok: "length buf = 16 \<Longrightarrow> \<exists>p. unpack_IHH8s buf = Inr p"
  by (simp add: unpack_IHH8s_def)

lemma decode_job_body_short_name:
  assumes "36 \<le> length body" and "int (length body) < 36 + le_int (slice 32 36 body)"
  shows "\<exists>e. decode_job_body body = Inl e"
proof -
  obtain p where p: "unpack_IHH8s (slice 0 16 body) = Inr p"
    using unpack_IHH8s_ok [of "slice 0 16 body"] assms(1) by (auto simp: slice_length)
  have len: "unpack_I (slice 32 36 body) = Inr (le_int (slice 32 36 body))"
    using assms(1) by (simp add: unpack_I_def slice_length)
  have past: "\<And>k. unpack_I (slice (36 + le_int (slice 32 36 body)) k body)
                = Inl (StructError ''unpack requires a buffer of 4 bytes'')"
    using assms(2) by (simp add: unpack_I_def slice_past)
  show ?thesis
  proof (cases "utf8_decode (slice 36 (36 + le_int (slice 32 36 body)) body)")
    case (Inl e)
    then show ?thesis using assms(1) p len
      by (simp add: decode_job_body_def try_bind_def)
  next
    case (Inr nm)
    then show ?thesis using assms(1) p len past
      by (simp add: decode_job_body_def try_bind_def Let_def)
  qed
qed

lemma decode_plan_body_short_name:
  assumes "36 \<le> length body" and "int (length body) < 36 + le_int (slice 32 36 body)"
  shows "\<exists>e. decode_plan_body body = Inl e"
proof -
  obtain p where p: "unpack_IHH8s (slice 0 16 body) = Inr p"
    using unpack_IHH8s_ok [of "slice 0 16 body"] assms(1) by (auto simp: slice_length)
  obtain q where q: "unpack_IHH8s (slice 16 32 body) = Inr q"
    using unpack_IHH8s_ok [of "slice 16 32 body"] assms(1) by (auto simp: slice_length)
  have len: "unpack_I (slice 32 36 body) = Inr (le_int (slice 32 36 body))"
    using assms(1) by (simp add: unpack_I_def slice_length)
  have past: "\<And>k. unpack_ddd (slice (36 + le_int (slice 32 36 body)) k body)
                = Inl (StructError ''unpack requires a buffer of 24 bytes'')"
    using assms(2) by (simp add: unpack_ddd_def slice_past)
  show ?thesis
  proof (cases "utf8_decode (slice 36 (36 + le_int (slice 32 36 body)) body)")
    case (Inl e)
    then show ?thesis using assms(1) p q len
      by (simp add: decode_plan_body_def try_bind_def)
  next
    case (Inr nm)
    then show ?thesis using assms(1) p q len past
      by (simp add: decode_plan_body_def try_bind_def Let_def)
  qed
qed

text \<open>
  Claim C5. A present buffer of at least 36 bytes whose declared name length \<open>L\<close> (the
  little-endian number in bytes 32 to 35) has \<open>36 + L\<close> beyond the end of the buffer:
  both decoders raise \<^verbatim>\<open>DataError\<close>, whose text ends with the text of the exception
  that ended the \<^verbatim>\<open>try\<close> block. The result is neither a record nor \<^verbatim>\<open>None\<close>, and no
  other exception leaves the decoder.
\<close>

theorem decode_name_length_beyond_buffer:
  assumes "36 \<le> length body" and "int (length body) < 36 + le_int (slice 32 36 body)"
  shows "(\<exists>cause. decode_job_body body = Inl cause \<and>
            decode_job_info (Some body)
              = Inl (DataError (''Failed to decode job info: '' @ str_exn cause))) \<and>
         (\<exists>cause. decode_plan_body body = Inl cause \<and>
            decode_plan_info (Some body)
              = Inl (DataError (''Failed to decode plan info: '' @ str_exn cause)))"
proof -
  obtain e1 where e1: "decode_job_body body = Inl e1"
    using decode_job_body_short_name [OF assms] by blast
  obtain e2 where e2: "decode_plan_body body = Inl e2"
    using decode_plan_body_short_name [OF assms] by blast
  show ?thesis using e1 e2 by (simp add: decode_job_info_def decode_plan_info_def)
qed

text \<open>
  Claim C6. \<^verbatim>\<open>None\<close> decodes to \<^verbatim>\<open>None\<close>, and so does every buffer of fewer than 36
  bytes, for both decoders; neither case raises.
\<close>

theorem decode_absent_or_short:
  "decode_job_info None = Inr None \<and> decode_plan_info None = Inr None \<and>
   (length body < 36 \<longrightarrow>
      decode_job_info (Some body) = Inr None \<and> decode_plan_info (Some body) = Inr None)"
  by (simp add: decode_job_info_def decode_plan_info_def decode_job_body_def
        decode_plan_body_def)

theorem decode_absent_or_short_witness:
  "length [1, 2, 3 :: byte] < 36 \<and>
   decode_job_info (Some [1, 2, 3]) = Inr None \<and> decode_plan_info (Some [1, 2, 3]) = Inr None"
  using decode_absent_or_short [of "[1, 2, 3]"] by simp

theorem decode_name_length_beyond_buffer_witness:
  "36 \<le> length (replicate 32 0 @ [5, 0, 0, 0 :: byte]) \<and>
   int (length (replicate 32 0 @ [5, 0, 0, 0 :: byte]))
     < 36 + le_int (slice 32 36 (replicate 32 0 @ [5, 0, 0, 0 :: byte])) \<and>
   (\<exists>cause. decode_job_body (replicate 32 0 @ [5, 0, 0, 0]) = Inl cause \<and>
      decode_job_info (Some (replicate 32 0 @ [5, 0, 0, 0]))
        = Inl (DataError (''Failed to decode job info: '' @ str_exn cause))) \<and>
   (\<exists>cause. decode_plan_body (replicate 32 0 @ [5, 0, 0, 0]) = Inl cause \<and>
      decode_plan_info (Some (replicate 32 0 @ [5, 0, 0, 0]))
        = Inl (DataError (''Failed to decode plan info: '' @ str_exn cause)))"
proof -
  have h1: "36 \<le> length (replicate 32 0 @ [5, 0, 0, 0 :: byte])" by simp
  have h2: "int (length (replicate 32 0 @ [5, 0, 0, 0 :: byte]))
              < 36 + le_int (slice 32 36 (replicate 32 0 @ [5, 0, 0, 0 :: byte]))"
    by (simp add: slice_def clamp_index_def)
  show ?thesis using h1 h2 decode_name_length_beyond_buffer [OF h1 h2] by blast
qed

section \<open>Properties of the monitor\<close>

lemma init_clients_status:
  "p_status (init_clients ms m) n =
     (case map_of (rev ms) n of None \<Rightarrow> p_status m n | Some u \<Rightarrow> Some (init_status u))"
proof (induction ms arbitrary: m)
  case Nil
  show ?case by simp
next
  case (Cons a ms)
  obtain k u where a: "a = (k, u)" by (cases a)
  show ?case unfolding a
    by (simp add: Cons.IH init_status_def map_add_def split: option.split)
qed

lemma init_clients_clients:
  "p_clients (init_clients ms m) n =
     (case map_of (rev ms) n of None \<Rightarrow> p_clients m n | Some u \<Rightarrow> Some (BystronicClient u))"
proof (induction ms arbitrary: m)
  case Nil
  show ?case by simp
next
  case (Cons a ms)
  obtain k u where a: "a = (k, u)" by (cases a)
  show ?case unfolding a
    by (simp add: Cons.IH map_add_def split: option.split)
qed

lemma init_clients_consts:
  "update_interval (init_clients ms m) = update_interval m \<and>
   retry_attempts (init_clients ms m) = retry_attempts m \<and>
   p_monitoring (init_clients ms m) = p_monitoring m"
proof (induction ms arbitrary: m)
  case Nil
  show ?case by simp
next
  case (Cons a ms)
  obtain k u where a: "a = (k, u)" by (cases a)
  show ?case unfolding a by (simp add: Cons.IH)
qed

lemma status_inv_probe: "status_inv (client_get_machine_status c ev)"
  by (simp add: status_inv_def client_get_machine_status_def split: sum.split)

lemma table_inv_publish:
  "table_inv (mon s) \<Longrightarrow> status_inv st \<Longrightarrow> table_inv (mon (publish n st s))"
  by (simp add: table_inv_def publish_def)

lemma mon_sleep [simp]: "mon (sleep n k s) = mon s"
  by (simp add: sleep_def)

lemma mon_set_retry [simp]: "mon (set_retry n k s) = mon s"
  by (simp add: set_retry_def)

lemma p_status_set_client [simp]: "p_status (mon (set_client n c s)) = p_status (mon s)"
  by (simp add: set_client_def)

lemma table_inv_set_client: "table_inv (mon (set_client n c s)) = table_inv (mon s)"
  by (simp add: table_inv_def)

lemma table_inv_try_block:
  assumes "table_inv (mon s)"
  shows "table_inv (mon (snd (try_block n ev c s)))"
proof (cases "p_connected c")
  case True
  then show ?thesis using assms
    by (simp add: try_block_def table_inv_publish status_inv_probe)
next
  case False
  obtain r c1 where r: "connect (connect_result ev) c = (r, c1)"
    by (cases "connect (connect_result ev) c")
  show ?thesis
  proof (cases r)
    case (Inl e)
    then show ?thesis using False r assms by (simp add: try_block_def table_inv_set_client)
  next
    case (Inr u)
    then show ?thesis using False r assms
      by (simp add: try_block_def table_inv_set_client table_inv_publish status_inv_probe)
  qed
qed

lemma table_inv_on_connection_error:
  "table_inv (mon s) \<Longrightarrow> table_inv (mon (on_connection_error n ev c e s))"
  by (simp add: on_connection_error_def Let_def status_inv_def table_inv_publish)

lemma table_inv_on_other_error:
  "table_inv (mon s) \<Longrightarrow> table_inv (mon (on_other_error n ev c e s))"
  by (simp add: on_other_error_def status_inv_def table_inv_publish)

lemma table_inv_iteration:
  assumes "table_inv (mon s)"
  shows "table_inv (mon (monitor_iteration n ev s))"
proof (cases "p_clients (mon s) n")
  case None
  then show ?thesis using assms by (simp add: monitor_iteration_def)
next
  case (Some c)
  obtain r s1 where t: "try_block n ev c s = (r, s1)" by (cases "try_block n ev c s")
  have inv1: "table_inv (mon s1)" using table_inv_try_block [OF assms, of n ev c] t by simp
  show ?thesis
  proof (cases r)
    case None
    then show ?thesis using Some t inv1 by (simp add: monitor_iteration_def)
  next
    case e: (Some e)
    show ?thesis
    proof (cases "p_clients (mon s1) n")
      case None
      then show ?thesis using Some t e inv1 by (simp add: monitor_iteration_def)
    next
      case c1: (Some c1)
      then show ?thesis using Some t e inv1
        by (simp add: monitor_iteration_def table_inv_on_connection_error
              table_inv_on_other_error)
    qed
  qed
qed

lemma table_inv_fleet_run:
  "table_inv (mon s) \<Longrightarrow> table_inv (mon (fleet_run sched s))"
proof (induction sched arbitrary: s)
  case Nil
  then show ?case by simp
next
  case (Cons a sched)
  obtain n ev where a: "a = (n, ev)" by (cases a)
  show ?case unfolding a using Cons.prems by (simp add: Cons.IH table_inv_iteration)
qed

lemma table_inv_init: "table_inv (MachineMonitor ms i a)"
  unfolding table_inv_def
proof (intro allI impI)
  fix n st
  assume "p_status (MachineMonitor ms i a) n = Some st"
  then have "st = init_status (the (map_of (rev ms) n))"
    by (cases "map_of (rev ms) n") (simp_all add: MachineMonitor_def init_clients_status)
  then show "status_inv st" by (simp add: status_inv_def init_status_def)
qed

lemma table_inv_start: "table_inv (mon (start_state (MachineMonitor ms i a)))"
  using table_inv_init [of ms i a]
  by (simp add: start_state_def start_monitoring_def table_inv_def)

text \<open>
  Claim C9. Every status in the table has an error text only if it is not connected: in
  the table the constructor builds, after any passes of any loops in any order, and after
  each way a pass can store a status (the normal publication inside
  \<open>monitor_iteration\<close>, the soft-fail publication of \<open>on_connection_error\<close>, the
  degraded publication of \<open>on_other_error\<close>).
\<close>

theorem status_error_only_when_disconnected:
  "table_inv (MachineMonitor ms interval attempts) \<and>
   table_inv (mon (fleet_run sched (start_state (MachineMonitor ms interval attempts)))) \<and>
   (table_inv (mon s) \<longrightarrow>
      table_inv (mon (monitor_iteration n ev s)) \<and>
      table_inv (mon (on_connection_error n ev c e s)) \<and>
      table_inv (mon (on_other_error n ev c e s)))"
  using table_inv_init table_inv_fleet_run [OF table_inv_start] table_inv_iteration
    table_inv_on_connection_error table_inv_on_other_error by blast

lemmas run_defs = start_state_def start_monitoring_def MachineMonitor_def
  monitor_iteration_def try_block_def connect_def BystronicClient_def on_connection_error_def
  on_other_error_def set_client_def set_retry_def publish_def sleep_def Let_def

theorem status_error_only_when_disconnected_witness:
  "table_inv (mon (fleet_run
      [(''L1'', \<lparr>connect_result = Some (TransportError ''refused''), work_read = Inr None,
                 laser_read = (\<lambda>n. Inr (PyFloat 0)), now = 7\<rparr>)]
      (start_state (MachineMonitor [(''L1'', ''u1'')] 30 0)))) \<and>
   p_status (mon (fleet_run
      [(''L1'', \<lparr>connect_result = Some (TransportError ''refused''), work_read = Inr None,
                 laser_read = (\<lambda>n. Inr (PyFloat 0)), now = 7\<rparr>)]
      (start_state (MachineMonitor [(''L1'', ''u1'')] 30 0)))) ''L1''
     = Some \<lparr>machine_url = ''u1'', is_connected = False, current_job = None,
              laser_parameters = None, last_update = Some 7,
              error_message = Some ''Failed to connect to u1: refused''\<rparr>"
  using status_error_only_when_disconnected [of "[(''L1'', ''u1'')]" 30 0
      "[(''L1'', \<lparr>connect_result = Some (TransportError ''refused''), work_read = Inr None,
                  laser_read = (\<lambda>n. Inr (PyFloat 0)), now = 7\<rparr>)]"]
  by (simp add: run_defs)

text \<open>
  Claim C10. When the transport's connect raises, \<^verbatim>\<open>connect\<close> raises
  \<^verbatim>\<open>ConnectionError\<close> and leaves the flag \<^verbatim>\<open>_connected\<close> (and the URL) as they were;
  on a session whose flag was false, the flag is still false and a following
  \<^verbatim>\<open>disconnect\<close> returns with the session unchanged: the only transport call on record
  is the connect, whatever the transport's disconnect would have done.
\<close>

theorem connect_failure_keeps_flag:
  "fst (connect (Some e) c)
     = Inl (ConnectionError (''Failed to connect to '' @ url c @ '': '' @ str_exn e)) \<and>
   p_connected (snd (connect (Some e) c)) = p_connected c \<and>
   url (snd (connect (Some e) c)) = url c \<and>
   (\<not> p_connected c \<longrightarrow>
      \<not> p_connected (snd (connect (Some e) c)) \<and>
      disconnect outcome (snd (connect (Some e) c)) = (Inr (), snd (connect (Some e) c)) \<and>
      transport_calls (snd (disconnect outcome (snd (connect (Some e) c))))
        = transport_calls c @ [TConnect])"
  by (simp add: connect_def disconnect_def Let_def)

theorem connect_failure_keeps_flag_witness:
  "\<not> p_connected (BystronicClient ''opc.tcp://10.0.0.5:56000'') \<and>
   fst (connect (Some (TransportError ''timed out''))
          (BystronicClient ''opc.tcp://10.0.0.5:56000''))
     = Inl (ConnectionError ''Failed to connect to opc.tcp://10.0.0.5:56000: timed out'') \<and>
   \<not> p_connected (snd (connect (Some (TransportError ''timed out''))
                         (BystronicClient ''opc.tcp://10.0.0.5:56000''))) \<and>
   transport_calls (snd (disconnect None (snd (connect (Some (TransportError ''timed out''))
       (BystronicClient ''opc.tcp://10.0.0.5:56000''))))) = [TConnect]"
  using connect_failure_keeps_flag [of "TransportError ''timed out''"
          "BystronicClient ''opc.tcp://10.0.0.5:56000''" None]
  by (simp add: BystronicClient_def connect_def disconnect_def)

lemma map_of_rev_distinct: "distinct (map fst ms) \<Longrightarrow> map_of (rev ms) = map_of ms"
proof (induction ms)
  case Nil
  show ?case by simp
next
  case (Cons a ms)
  obtain k v where a: "a = (k, v)" by (cases a)
  have none: "map_of ms k = None" using Cons.prems a by (simp add: map_of_eq_None_iff)
  have ih: "map_of (rev ms) = map_of ms" using Cons by simp
  show ?case unfolding a
  proof (rule ext)
    fix x
    show "map_of (rev ((k, v) # ms)) x = map_of ((k, v) # ms) x"
      using none by (simp add: ih map_add_def split: option.split)
  qed
qed

lemma keep_publish: "unpublished_keep p0 s \<Longrightarrow> unpublished_keep p0 (publish m st s)"
  by (simp add: unpublished_keep_def publish_def)

lemma keep_sleep [simp]: "unpublished_keep p0 (sleep m k s) = unpublished_keep p0 s"
  by (simp add: unpublished_keep_def sleep_def)

lemma keep_set_retry [simp]: "unpublished_keep p0 (set_retry m k s) = unpublished_keep p0 s"
  by (simp add: unpublished_keep_def set_retry_def)

lemma keep_set_client [simp]: "unpublished_keep p0 (set_client m c s) = unpublished_keep p0 s"
  by (simp add: unpublished_keep_def set_client_def)

lemma keep_try_block:
  assumes "unpublished_keep p0 s"
  shows "unpublished_keep p0 (snd (try_block n ev c s))"
proof (cases "p_connected c")
  case True
  then show ?thesis using assms by (simp add: try_block_def keep_publish)
next
  case False
  obtain r c1 where r: "connect (connect_result ev) c = (r, c1)"
    by (cases "connect (connect_result ev) c")
  show ?thesis
  proof (cases r)
    case (Inl e)
    then show ?thesis using False r assms by (simp add: try_block_def)
  next
    case (Inr u)
    then show ?thesis using False r assms by (simp add: try_block_def keep_publish)
  qed
qed

lemma keep_on_connection_error:
  "unpublished_keep p0 s \<Longrightarrow> unpublished_keep p0 (on_connection_error n ev c e s)"
  by (simp add: on_connection_error_def Let_def keep_publish)

lemma keep_on_other_error:
  "unpublished_keep p0 s \<Longrightarrow> unpublished_keep p0 (on_other_error n ev c e s)"
  by (simp add: on_other_error_def keep_publish)

lemma keep_iteration:
  assumes "unpublished_keep p0 s"
  shows "unpublished_keep p0 (monitor_iteration n ev s)"
proof (cases "p_clients (mon s) n")
  case None
  then show ?thesis using assms by (simp add: monitor_iteration_def)
next
  case (Some c)
  obtain r s1 where t: "try_block n ev c s = (r, s1)" by (cases "try_block n ev c s")
  have k1: "unpublished_keep p0 s1" using keep_try_block [OF assms, of n ev c] t by simp
  show ?thesis
  proof (cases r)
    case None
    then show ?thesis using Some t k1 by (simp add: monitor_iteration_def)
  next
    case e: (Some e)
    show ?thesis
    proof (cases "p_clients (mon s1) n")
      case None
      then show ?thesis using Some t e k1 by (simp add: monitor_iteration_def)
    next
      case c1: (Some c1)
      then show ?thesis using Some t e k1
        by (simp add: monitor_iteration_def keep_on_connection_error keep_on_other_error)
    qed
  qed
qed

lemma keep_fleet_run:
  "unpublished_keep p0 s \<Longrightarrow> unpublished_keep p0 (fleet_run sched s)"
proof (induction sched arbitrary: s)
  case Nil
  then show ?case by simp
next
  case (Cons a sched)
  obtain n ev where a: "a = (n, ev)" by (cases a)
  show ?case unfolding a using Cons.prems by (simp add: Cons.IH keep_iteration)
qed

lemma keep_start: "unpublished_keep (p_status m) (start_state m)"
  by (simp add: unpublished_keep_def start_state_def start_monitoring_def)

text \<open>
  Claim C4, as the code has it. The constructor stores a status for every configured
  device, so as long as the loop of that device has published nothing (whatever passes it
  and the loops of the other devices have made) \<^verbatim>\<open>get_machine_status\<close> gives that initial
  status: the URL, not connected, every other field \<^verbatim>\<open>None\<close>. It gives \<^verbatim>\<open>None\<close> only
  for a name that is not configured.
\<close>

theorem status_before_first_publish:
  assumes "distinct (map fst ms)"
    and "n \<notin> fst ` set (publications
                 (fleet_run sched (start_state (MachineMonitor ms interval attempts))))"
  shows "monitor_get_machine_status
           (mon (fleet_run sched (start_state (MachineMonitor ms interval attempts)))) n
         = (case map_of ms n of None \<Rightarrow> None | Some u \<Rightarrow> Some (init_status u))"
proof -
  have "unpublished_keep (p_status (MachineMonitor ms interval attempts))
          (fleet_run sched (start_state (MachineMonitor ms interval attempts)))"
    by (rule keep_fleet_run [OF keep_start])
  then have "p_status (mon (fleet_run sched (start_state (MachineMonitor ms interval attempts)))) n
               = p_status (MachineMonitor ms interval attempts) n"
    using assms(2) unfolding unpublished_keep_def by blast
  then show ?thesis using assms(1)
    by (simp add: monitor_get_machine_status_def MachineMonitor_def init_clients_status
          map_of_rev_distinct split: option.split)
qed

lemma busy_run:
  "map fst (publications (fleet_run busy_schedule (start_state two_devices))) = [''L2'']"
  "sleeps (fleet_run busy_schedule (start_state two_devices))
     = [(''L1'', 10), (''L2'', 30), (''L1'', 20), (''L1'', 30)]"
  by (simp_all add: busy_schedule_def two_devices_def run_defs ev_refused_def ev_ok_def)

theorem status_before_first_publish_witness:
  "distinct (map fst [(''L1'', ''u1''), (''L2'', ''u2'')]) \<and>
   ''L1'' \<notin> fst ` set (publications (fleet_run busy_schedule (start_state two_devices))) \<and>
   sleeps (fleet_run busy_schedule (start_state two_devices))
     = [(''L1'', 10), (''L2'', 30), (''L1'', 20), (''L1'', 30)] \<and>
   monitor_get_machine_status (mon (fleet_run busy_schedule (start_state two_devices))) ''L1''
     = Some (init_status ''u1'')"
proof -
  have d: "distinct (map fst [(''L1'', ''u1''), (''L2'', ''u2'')])" by simp
  have "fst ` set (publications (fleet_run busy_schedule (start_state two_devices)))
          = set (map fst (publications (fleet_run busy_schedule (start_state two_devices))))"
    by simp
  then have u: "''L1'' \<notin> fst ` set (publications (fleet_run busy_schedule
        (start_state (MachineMonitor [(''L1'', ''u1''), (''L2'', ''u2'')] 30 3))))"
    unfolding busy_run(1) two_devices_def [symmetric] by simp
  show ?thesis
    using status_before_first_publish [OF d u] d u busy_run(2)
    by (simp add: two_devices_def)
qed

theorem status_before_first_publish_counterexample:
  "monitor_get_machine_status
     (MachineMonitor [(''Laser1'', ''opc.tcp://10.0.0.5:56000'')] 30 3) ''Laser1''
     = Some \<lparr>machine_url = ''opc.tcp://10.0.0.5:56000'', is_connected = False,
              current_job = None, laser_parameters = None, last_update = None,
              error_message = None\<rparr> \<and>
   monitor_get_machine_status
     (MachineMonitor [(''Laser1'', ''opc.tcp://10.0.0.5:56000'')] 30 3) ''Laser1'' \<noteq> None"
  by (simp add: monitor_get_machine_status_def MachineMonitor_def)

section \<open>Properties of the client\<close>

lemma laser_keys:
  "last (split_on (CHR ''.'') ''ns=2;s=Laser.CurrentLaserPower'') = ''CurrentLaserPower''"
  "last (split_on (CHR ''.'') ''ns=2;s=Laser.GasChannel'') = ''GasChannel''"
  "last (split_on (CHR ''.'') ''ns=2;s=Laser.GasPressure'') = ''GasPressure''"
  "last (split_on (CHR ''.'') ''ns=2;s=Laser.LaserPowerDeviation'') = ''LaserPowerDeviation''"
  "last (split_on (CHR ''.'') ''ns=2;s=Laser.LaserPowerSetpoint'') = ''LaserPowerSetpoint''"
  "last (split_on (CHR ''.'') ''ns=2;s=Laser.ProcessOperationMode'') = ''ProcessOperationMode''"
  by simp_all

text \<open>
  Claim C1, at an input where the code departs from it. The read of the node
  \<^verbatim>\<open>Laser.CurrentLaserPower\<close> fails and the five others give \<open>1\<close>. The snapshot is
  built, but its field \<^verbatim>\<open>current_laser_power\<close> is \<^verbatim>\<open>None\<close>, not \<^verbatim>\<open>0.0\<close>: the handler
  stores \<^verbatim>\<open>None\<close> under the key, so \<^verbatim>\<open>values.get(key, 0.0)\<close> finds the key and never
  uses its default.
\<close>

theorem failed_laser_read_gives_None:
  "get_laser_parameters
     (\<lambda>node_id. if node_id = ''ns=2;s=Laser.CurrentLaserPower''
                 then Inl (TransportError ''BadCommunicationError'') else Inr (PyInt 1))
   = \<lparr>current_laser_power = PyNone, gas_channel = PyInt 1, gas_pressure = PyInt 1,
      laser_power_deviation = PyInt 1, laser_power_setpoint = PyInt 1,
      process_operation_mode = PyInt 1\<rparr> \<and>
   current_laser_power (get_laser_parameters
     (\<lambda>node_id. if node_id = ''ns=2;s=Laser.CurrentLaserPower''
                 then Inl (TransportError ''BadCommunicationError'') else Inr (PyInt 1)))
   \<noteq> PyFloat 0"
  by (simp add: get_laser_parameters_def LASER_NODES_def dict_get_def laser_keys)

section \<open>The retry track of the monitor loop\<close>




lemma polling_iteration:
  assumes "p_clients (mon s) n = Some c" and "p_connected c"
  shows "monitor_iteration n ev s
         = sleep n (update_interval (mon s)) (publish n (client_get_machine_status c ev) s)"
  using assms by (simp add: monitor_iteration_def try_block_def)

lemma probe_failure_status:
  "work_read ev = Inl e \<Longrightarrow>
   client_get_machine_status c ev
     = \<lparr>machine_url = url c, is_connected = False, current_job = None,
        laser_parameters = None, last_update = Some (now ev),
        error_message = Some (''Failed to get current job: '' @ str_exn e)\<rparr>"
  by (simp add: client_get_machine_status_def get_current_job_def try_bind_def)

lemma try_block_raises:
  assumes "fst (try_block n ev c s) = Some x"
  shows "\<not> p_connected c \<and>
         (\<exists>e. connect_result ev = Some e \<and>
              x = ConnectionError (''Failed to connect to '' @ url c @ '': '' @ str_exn e))"
proof (cases "p_connected c")
  case True
  then show ?thesis using assms by (simp add: try_block_def)
next
  case False
  show ?thesis
  proof (cases "connect_result ev")
    case None
    then show ?thesis using False assms by (simp add: try_block_def connect_def)
  next
    case (Some e)
    then show ?thesis using False assms by (simp add: try_block_def connect_def)
  qed
qed

lemma connect_ok_iteration:
  assumes "p_clients (mon s) n = Some c" and "\<not> p_connected c" and "connect_result ev = None"
  shows "monitor_iteration n ev s
         = sleep n (update_interval (mon s))
             (publish n (client_get_machine_status
                 (c\<lparr>transport_calls := transport_calls c @ [TConnect], p_connected := True\<rparr>) ev)
               (set_retry n 0
                 (set_client n
                    (c\<lparr>transport_calls := transport_calls c @ [TConnect], p_connected := True\<rparr>) s)))"
  using assms by (simp add: monitor_iteration_def try_block_def connect_def set_client_def)

lemma job_failure_status:
  "get_current_job ev = Inl e \<Longrightarrow>
   client_get_machine_status c ev
     = \<lparr>machine_url = url c, is_connected = False, current_job = None,
        laser_parameters = None, last_update = Some (now ev),
        error_message = Some (str_exn e)\<rparr>"
  by (simp add: client_get_machine_status_def)

lemma get_current_job_failures:
  "work_read ev = Inl e \<Longrightarrow>
     get_current_job ev = Inl (DataError (''Failed to get current job: '' @ str_exn e))"
  "work_read ev = Inr ext \<Longrightarrow> decode_job_info ext = Inl e \<Longrightarrow>
     get_current_job ev = Inl (DataError (''Failed to get current job: '' @ str_exn e))"
  by (simp_all add: get_current_job_def try_bind_def)

text \<open>
  Claim C2, as the code has it. While the session is connected, whatever the probe does,
  the pass publishes the status that \<^verbatim>\<open>get_machine_status\<close> returns and sleeps
  \<^verbatim>\<open>update_interval\<close>; the retry count and the session are untouched. A failure of
  \<^verbatim>\<open>get_current_job\<close> (the read of the node raises, with a connection error or any
  other, or the record does not decode) does not leave \<^verbatim>\<open>get_machine_status\<close>: it comes
  back as a status that is not connected and carries the error text. The \<^verbatim>\<open>try\<close> block
  of the loop raises only when the session is not connected and the connect fails, so no
  other pass reaches the retry handler: every other pass sleeps \<^verbatim>\<open>update_interval\<close>,
  publishes once and does not increase the retry count.
\<close>

theorem polling_probe_failure_is_published:
  assumes "p_clients (mon s) n = Some c"
  shows "(p_connected c \<longrightarrow>
            retry_count (monitor_iteration n ev s) = retry_count s \<and>
            sleeps (monitor_iteration n ev s) = sleeps s @ [(n, update_interval (mon s))] \<and>
            p_clients (mon (monitor_iteration n ev s)) = p_clients (mon s) \<and>
            p_status (mon (monitor_iteration n ev s))
              = (p_status (mon s))(n \<mapsto> client_get_machine_status c ev) \<and>
            publications (monitor_iteration n ev s)
              = publications s @ [(n, client_get_machine_status c ev)]) \<and>
         (get_current_job ev = Inl e \<longrightarrow>
            client_get_machine_status c ev
              = \<lparr>machine_url = url c, is_connected = False, current_job = None,
                 laser_parameters = None, last_update = Some (now ev),
                 error_message = Some (str_exn e)\<rparr>) \<and>
         (work_read ev = Inl e \<or> (\<exists>ext. work_read ev = Inr ext \<and> decode_job_info ext = Inl e) \<longrightarrow>
            get_current_job ev = Inl (DataError (''Failed to get current job: '' @ str_exn e))) \<and>
         (fst (try_block n ev c s) = Some x \<longrightarrow>
            \<not> p_connected c \<and>
            (\<exists>e'. connect_result ev = Some e' \<and>
               x = ConnectionError (''Failed to connect to '' @ url c @ '': '' @ str_exn e'))) \<and>
         (p_connected c \<or> connect_result ev = None \<longrightarrow>
            sleeps (monitor_iteration n ev s) = sleeps s @ [(n, update_interval (mon s))] \<and>
            retry_count (monitor_iteration n ev s) n
              = (if p_connected c then retry_count s n else 0) \<and>
            length (publications (monitor_iteration n ev s)) = Suc (length (publications s)))"
proof (intro conjI impI)
  assume pc: "p_connected c"
  note it = polling_iteration [OF assms pc, of ev]
  show "retry_count (monitor_iteration n ev s) = retry_count s"
    and "sleeps (monitor_iteration n ev s) = sleeps s @ [(n, update_interval (mon s))]"
    and "p_clients (mon (monitor_iteration n ev s)) = p_clients (mon s)"
    and "p_status (mon (monitor_iteration n ev s))
              = (p_status (mon s))(n \<mapsto> client_get_machine_status c ev)"
    and "publications (monitor_iteration n ev s)
              = publications s @ [(n, client_get_machine_status c ev)]"
    unfolding it by (simp_all add: sleep_def publish_def)
next
  assume "get_current_job ev = Inl e"
  then show "client_get_machine_status c ev
              = \<lparr>machine_url = url c, is_connected = False, current_job = None,
                 laser_parameters = None, last_update = Some (now ev),
                 error_message = Some (str_exn e)\<rparr>"
    by (rule job_failure_status)
next
  assume "work_read ev = Inl e \<or> (\<exists>ext. work_read ev = Inr ext \<and> decode_job_info ext = Inl e)"
  then show "get_current_job ev = Inl (DataError (''Failed to get current job: '' @ str_exn e))"
    using get_current_job_failures by blast
next
  assume r: "fst (try_block n ev c s) = Some x"
  show "\<not> p_connected c" using try_block_raises [OF r] by blast
  show "\<exists>e'. connect_result ev = Some e' \<and>
               x = ConnectionError (''Failed to connect to '' @ url c @ '': '' @ str_exn e')"
    using try_block_raises [OF r] by blast
next
  assume h: "p_connected c \<or> connect_result ev = None"
  show "sleeps (monitor_iteration n ev s) = sleeps s @ [(n, update_interval (mon s))]"
    and "retry_count (monitor_iteration n ev s) n = (if p_connected c then retry_count s n else 0)"
    and "length (publications (monitor_iteration n ev s)) = Suc (length (publications s))"
  proof -
    have "sleeps (monitor_iteration n ev s) = sleeps s @ [(n, update_interval (mon s))] \<and>
          retry_count (monitor_iteration n ev s) n = (if p_connected c then retry_count s n else 0) \<and>
          length (publications (monitor_iteration n ev s)) = Suc (length (publications s))"
    proof (cases "p_connected c")
      case True
      show ?thesis unfolding polling_iteration [OF assms True, of ev] using True
        by (simp add: sleep_def publish_def)
    next
      case False
      then have cr: "connect_result ev = None" using h by simp
      show ?thesis unfolding connect_ok_iteration [OF assms False cr] using False
        by (simp add: sleep_def publish_def set_retry_def set_client_def)
    qed
    then show "sleeps (monitor_iteration n ev s) = sleeps s @ [(n, update_interval (mon s))]"
      and "retry_count (monitor_iteration n ev s) n = (if p_connected c then retry_count s n else 0)"
      and "length (publications (monitor_iteration n ev s)) = Suc (length (publications s))"
      by blast+
  qed
qed

lemma s_polling_client:
  "p_clients (mon s_polling) ''L1''
     = Some \<lparr>url = ''u1'', timeout = 10, p_connected = True, transport_calls = [TConnect]\<rparr>"
  by (simp add: s_polling_def run_defs)

lemma s_polling_rest:
  "retry_count s_polling ''L1'' = 0" "sleeps s_polling = [(''L1'', 30)]"
  "update_interval (mon s_polling) = 30"
  by (simp_all add: s_polling_def run_defs)

lemma s_polling_iteration:
  "monitor_iteration ''L1'' ev s_polling
     = sleep ''L1'' 30 (publish ''L1'' (client_get_machine_status
         \<lparr>url = ''u1'', timeout = 10, p_connected = True, transport_calls = [TConnect]\<rparr> ev)
         s_polling)"
  using polling_iteration [OF s_polling_client, of ev] by (simp add: s_polling_rest)

lemma ev_bad_record_decode:
  "decode_job_info (Some (replicate 32 0 @ [5, 0, 0, 0]))
     = Inl (DataError ''Failed to decode job info: unpack requires a buffer of 4 bytes'')"
  by code_simp

theorem polling_probe_failure_is_published_witness:
  "p_clients (mon s_polling) ''L1''
     = Some \<lparr>url = ''u1'', timeout = 10, p_connected = True, transport_calls = [TConnect]\<rparr> \<and>
   work_read ev_lost = Inl (ConnectionError ''connection lost'') \<and>
   get_current_job ev_lost = Inl (DataError ''Failed to get current job: connection lost'') \<and>
   retry_count (monitor_iteration ''L1'' ev_lost s_polling) = retry_count s_polling \<and>
   sleeps (monitor_iteration ''L1'' ev_lost s_polling) = [(''L1'', 30), (''L1'', 30)] \<and>
   p_status (mon (monitor_iteration ''L1'' ev_lost s_polling)) ''L1''
     = Some \<lparr>machine_url = ''u1'', is_connected = False, current_job = None,
              laser_parameters = None, last_update = Some 2,
              error_message = Some ''Failed to get current job: connection lost''\<rparr> \<and>
   work_read ev_bad_record = Inr (Some (replicate 32 0 @ [5, 0, 0, 0])) \<and>
   get_current_job ev_bad_record
     = Inl (DataError (''Failed to get current job: '' @
              ''Failed to decode job info: unpack requires a buffer of 4 bytes'')) \<and>
   retry_count (monitor_iteration ''L1'' ev_bad_record s_polling) = retry_count s_polling \<and>
   fst (try_block ''L1'' ev_refused (BystronicClient ''u1'')
          (start_state (MachineMonitor [(''L1'', ''u1'')] 45 3)))
     = Some (ConnectionError ''Failed to connect to u1: refused'') \<and>
   \<not> p_connected (BystronicClient ''u1'') \<and>
   connect_result ev_refused = Some (TransportError ''refused'')"
proof -
  let ?c = "\<lparr>url = ''u1'', timeout = 10, p_connected = True, transport_calls = [TConnect]\<rparr>"
  let ?s0 = "start_state (MachineMonitor [(''L1'', ''u1'')] 45 3)"
  have a1: "p_clients (mon s_polling) ''L1'' = Some ?c" by (rule s_polling_client)
  have a2: "p_connected ?c" by simp
  have w1: "work_read ev_lost = Inl (ConnectionError ''connection lost'')"
    by (simp add: ev_lost_def)
  have w2: "work_read ev_bad_record = Inr (Some (replicate 32 0 @ [5, 0, 0, 0]))"
    by (simp add: ev_bad_record_def)
  note t1 = polling_probe_failure_is_published
    [OF a1, where ev = ev_lost and e = "ConnectionError ''connection lost''"]
  have g1: "get_current_job ev_lost = Inl (DataError ''Failed to get current job: connection lost'')"
    using t1 w1 by simp
  note t2 = polling_probe_failure_is_published
    [OF a1, where ev = ev_lost and e = "DataError ''Failed to get current job: connection lost''"]
  have st: "client_get_machine_status ?c ev_lost
              = \<lparr>machine_url = ''u1'', is_connected = False, current_job = None,
                 laser_parameters = None, last_update = Some 2,
                 error_message = Some ''Failed to get current job: connection lost''\<rparr>"
    using t2 g1 by (simp add: ev_lost_def)
  have r1: "retry_count (monitor_iteration ''L1'' ev_lost s_polling) = retry_count s_polling"
    and sl: "sleeps (monitor_iteration ''L1'' ev_lost s_polling) = [(''L1'', 30), (''L1'', 30)]"
    and ps: "p_status (mon (monitor_iteration ''L1'' ev_lost s_polling)) ''L1''
               = Some (client_get_machine_status ?c ev_lost)"
    using t1 a2 by (simp_all add: s_polling_rest)
  note t3 = polling_probe_failure_is_published
    [OF a1, where ev = ev_bad_record
       and e = "DataError ''Failed to decode job info: unpack requires a buffer of 4 bytes''"]
  have g3: "get_current_job ev_bad_record
     = Inl (DataError (''Failed to get current job: '' @
              ''Failed to decode job info: unpack requires a buffer of 4 bytes''))"
    using t3 w2 ev_bad_record_decode by simp
  have r3: "retry_count (monitor_iteration ''L1'' ev_bad_record s_polling) = retry_count s_polling"
    using t3 a2 by simp
  have b1: "p_clients (mon ?s0) ''L1'' = Some (BystronicClient ''u1'')"
    by (simp add: start_state_def start_monitoring_def MachineMonitor_def)
  have tb: "fst (try_block ''L1'' ev_refused (BystronicClient ''u1'') ?s0)
              = Some (ConnectionError ''Failed to connect to u1: refused'')"
    by (simp add: try_block_def connect_def BystronicClient_def ev_refused_def)
  note t4 = polling_probe_failure_is_published
    [OF b1, where ev = ev_refused and x = "ConnectionError ''Failed to connect to u1: refused''"]
  have nc: "\<not> p_connected (BystronicClient ''u1'')" using t4 tb by blast
  have cr: "connect_result ev_refused = Some (TransportError ''refused'')"
    by (simp add: ev_refused_def)
  show ?thesis using a1 w1 g1 r1 sl ps st w2 g3 r3 tb nc cr by simp
qed

text \<open>
  The claim as stated fails on the run \<open>s_polling\<close>: the session is connected, the
  read raises a connection error, and the retry count stays 0 while the loop sleeps the
  full interval of 30 seconds, not the backoff of 10.
\<close>

theorem polling_probe_failure_counterexample:
  "map_option p_connected (p_clients (mon s_polling) ''L1'') = Some True \<and>
   work_read ev_lost = Inl (ConnectionError ''connection lost'') \<and>
   is_ConnectionError (ConnectionError ''connection lost'') \<and>
   retry_count (monitor_iteration ''L1'' ev_lost s_polling) ''L1'' = retry_count s_polling ''L1'' \<and>
   retry_count (monitor_iteration ''L1'' ev_lost s_polling) ''L1'' \<noteq> retry_count s_polling ''L1'' + 1 \<and>
   sleeps (monitor_iteration ''L1'' ev_lost s_polling) = [(''L1'', 30), (''L1'', 30)] \<and>
   last (sleeps (monitor_iteration ''L1'' ev_lost s_polling)) \<noteq> (''L1'', min (1 * 10) 60) \<and>
   map_option error_message (p_status (mon (monitor_iteration ''L1'' ev_lost s_polling)) ''L1'')
     = Some (Some ''Failed to get current job: connection lost'')"
  by (simp add: s_polling_iteration s_polling_client s_polling_rest sleep_def publish_def
        client_get_machine_status_def get_current_job_def try_bind_def ev_lost_def)




section \<open>Properties of the GUID text\<close>

lemma hex_digit_0: "hex_digit 0 = CHR ''0''"
  by (simp add: hex_digit_def)

lemma hex_digit_mod: "hex_digit (n mod 16) = hex_digit n"
  by (simp add: hex_digit_def)

lemma hexw_zero: "hexw w 0 = replicate w (CHR ''0'')"
  by (induction w) (simp_all add: hex_digit_0 replicate_append_same)

lemma length_hexw [simp]: "length (hexw w n) = w"
  by (induction w arbitrary: n) simp_all

lemma hexw_hexdigits:
  "0 \<le> n \<Longrightarrow> n < 16 ^ Suc w \<Longrightarrow>
   hexw (Suc w) n = replicate (Suc w - length (hexdigits n)) (CHR ''0'') @ hexdigits n"
proof (induction w arbitrary: n)
  case 0
  then have "n < 16" by simp
  then show ?case by (simp add: hexdigits.simps [of n] hex_digit_mod)
next
  case (Suc w)
  show ?case
  proof (cases "n < 16")
    case True
    then have d: "n div 16 = 0" "n mod 16 = n" using Suc.prems by simp_all
    show ?thesis using True
      by (simp add: hexdigits.simps [of n] d hexw_zero hex_digit_0 replicate_append_same)
  next
    case False
    have b: "0 \<le> n div 16" "n div 16 < 16 ^ Suc w" using Suc.prems by (simp_all add: div_less_iff_less_mult)
    have ih: "hexw (Suc w) (n div 16)
        = replicate (Suc w - length (hexdigits (n div 16))) (CHR ''0'') @ hexdigits (n div 16)"
      using Suc.IH [OF b] .
    have len: "length (hexdigits (n div 16)) \<le> Suc w"
      using arg_cong [OF ih, of length] by simp
    have hd: "hexdigits n = hexdigits (n div 16) @ [hex_digit (n mod 16)]"
      using False by (simp add: hexdigits.simps [of n])
    have "hexw (Suc (Suc w)) n = hexw (Suc w) (n div 16) @ [hex_digit (n mod 16)]"
      by (rule hexw.simps(2))
    also have "\<dots> = (replicate (Suc w - length (hexdigits (n div 16))) (CHR ''0'')
                     @ hexdigits (n div 16)) @ [hex_digit (n mod 16)]"
      by (simp only: ih)
    also have "\<dots> = replicate (Suc w - length (hexdigits (n div 16))) (CHR ''0'') @ hexdigits n"
      by (simp only: hd append_assoc)
    also have "Suc w - length (hexdigits (n div 16)) = Suc (Suc w) - length (hexdigits n)"
      using len by (simp add: hd)
    finally show ?thesis .
  qed
qed

lemma format_0x_hexw: "0 \<le> n \<Longrightarrow> n < 16 ^ w \<Longrightarrow> 0 < w \<Longrightarrow> format_0x w n = hexw w n"
  using hexw_hexdigits [of n "w - 1"] by (simp add: format_0x_def)

lemma le_int_bounds: "0 \<le> le_int bs \<and> le_int bs < 256 ^ length bs"
proof (induction bs)
  case Nil
  show ?case by simp
next
  case (Cons b bs)
  have "uint b < 256" using uint_bounded [of b] by simp
  moreover have "0 \<le> uint b" by simp
  ultimately show ?case using Cons by simp
qed

lemma hexw_two:
  "hexw (Suc (Suc w)) n
     = hexw w (n div 16 div 16) @ [hex_digit (n div 16 mod 16), hex_digit (n mod 16)]"
  by simp

lemma hexw_byte:
  "hexw (Suc (Suc w)) (uint (b :: byte) + 256 * m)
     = hexw w m @ [hex_digit (uint b div 16), hex_digit (uint b mod 16)]"
proof -
  define u where "u = uint b"
  have lt: "0 \<le> u" "u < 256" using uint_bounded [of b] by (simp_all add: u_def)
  have k: "u + 256 * m = u + 16 * (16 * m)" by simp
  have d: "(u + 256 * m) div 16 = 16 * m + u div 16"
    unfolding k by (rule div_mult_self2) simp
  have q: "0 \<le> u div 16" "u div 16 < 16" using lt by (simp_all add: div_less_iff_less_mult)
  have a: "(u + 256 * m) mod 16 = u mod 16" unfolding k by (rule mod_mult_self2)
  have f: "(u + 256 * m) div 16 mod 16 = u div 16" unfolding d using q by simp
  have c: "(u + 256 * m) div 16 div 16 = m" unfolding d using q by simp
  show ?thesis
    by (simp only: u_def [symmetric] hexw_two [of w "u + 256 * m"] a c f)
qed

lemma bytes_hex_append: "bytes_hex (xs @ ys) = bytes_hex xs @ bytes_hex ys"
  by (simp add: bytes_hex_def)

lemma length_bytes_hex [simp]: "length (bytes_hex xs) = 2 * length xs"
  by (induction xs) (simp_all add: bytes_hex_def)

lemma hexw_le_int: "hexw (2 * length bs) (le_int bs) = bytes_hex (rev bs)"
proof (induction bs)
  case Nil
  show ?case by (simp add: bytes_hex_def)
next
  case (Cons b bs)
  have "hexw (2 * length (b # bs)) (le_int (b # bs))
          = hexw (Suc (Suc (2 * length bs))) (uint b + 256 * le_int bs)" by simp
  also have "\<dots> = hexw (2 * length bs) (le_int bs) @ [hex_digit (uint b div 16), hex_digit (uint b mod 16)]"
    by (rule hexw_byte)
  finally show ?case by (simp add: Cons.IH bytes_hex_append) (simp add: bytes_hex_def)
qed

lemma format_0x_le_int:
  "bs \<noteq> [] \<Longrightarrow> format_0x (2 * length bs) (le_int bs) = bytes_hex (rev bs)"
proof -
  assume ne: "bs \<noteq> []"
  have "(256::int) ^ length bs = 16 ^ (2 * length bs)" by (simp add: power_mult)
  then have "le_int bs < 16 ^ (2 * length bs)" using le_int_bounds [of bs] by simp
  then show ?thesis using le_int_bounds [of bs] ne
    by (simp add: format_0x_hexw hexw_le_int)
qed

lemma le_int_append: "le_int (xs @ ys) = le_int xs + 256 ^ length xs * le_int ys"
  by (induction xs) (simp_all add: distrib_left mult.assoc)

lemma le_int_inj: "length xs = length ys \<Longrightarrow> le_int xs = le_int ys \<Longrightarrow> xs = ys"
proof (induction xs ys rule: list_induct2)
  case Nil
  show ?case by simp
next
  case (Cons x xs y ys)
  have bx: "0 \<le> uint x" "uint x < 256" and by': "0 \<le> uint y" "uint y < 256"
    using uint_bounded [of x] uint_bounded [of y] by simp_all
  have eq: "uint x + 256 * le_int xs = uint y + 256 * le_int ys" using Cons.prems by simp
  have mx: "(uint x + 256 * le_int xs) mod 256 = uint x"
    using bx by (simp only: mod_mult_self2 mod_pos_pos_trivial)
  have my: "(uint y + 256 * le_int ys) mod 256 = uint y"
    using by' by (simp only: mod_mult_self2 mod_pos_pos_trivial)
  have u: "uint x = uint y" using mx my eq by (simp only:)
  have "256 * le_int xs = 256 * le_int ys" using eq u by (simp only: add_left_cancel)
  then have "le_int xs = le_int ys" by simp
  then have "xs = ys" using Cons.IH by blast
  moreover have "x = y" using u by (simp only: word_uint_eq_iff)
  ultimately show ?case by simp
qed


lemma hex_digit_range: "hex_digit d \<in> set ''0123456789abcdef''"
proof -
  have "nat (d mod 16) < length ''0123456789abcdef''" by simp
  then show ?thesis unfolding hex_digit_def by (rule nth_mem)
qed

lemma hex_digit_not_hyphen: "hex_digit d \<noteq> CHR ''-''"
  using hex_digit_range [of d] by auto

lemma hex_val_digit_all:
  "\<forall>i \<in> set [0..<16]. hex_val (hex_digit (int i)) = Some (int i)"
  by (simp add: upt_rec hex_val_def hex_digit_def)

lemma hex_val_digit:
  assumes "0 \<le> d" and "d < 16"
  shows "hex_val (hex_digit d) = Some d"
proof -
  have "nat d \<in> set [0..<16]" using assms by simp
  then have "hex_val (hex_digit (int (nat d))) = Some (int (nat d))"
    using hex_val_digit_all by blast
  then show ?thesis using assms by simp
qed

lemma bytes_hex_digits: "c \<in> set (bytes_hex xs) \<Longrightarrow> \<exists>d. c = hex_digit d"
  by (induction xs) (auto simp: bytes_hex_def)

lemma hyphen_not_in_bytes_hex: "CHR ''-'' \<notin> set (bytes_hex xs)"
proof
  assume "CHR ''-'' \<in> set (bytes_hex xs)"
  then obtain d where "CHR ''-'' = hex_digit d" using bytes_hex_digits by blast
  then show False using hex_digit_not_hyphen [of d] by simp
qed

lemma filter_bytes_hex: "filter (\<lambda>c. c \<noteq> CHR ''-'') (bytes_hex xs) = bytes_hex xs"
  using hyphen_not_in_bytes_hex [of xs] by (auto simp add: filter_id_conv)

lemma byte_digits:
  "hex_val (hex_digit (uint (b :: byte) div 16)) = Some (uint b div 16)"
  "hex_val (hex_digit (uint (b :: byte) mod 16)) = Some (uint b mod 16)"
proof -
  have lt: "uint b < 256" using uint_bounded [of b] by simp
  have lo: "0 \<le> uint b div 16" by (simp add: pos_imp_zdiv_nonneg_iff)
  have hi: "uint b div 16 < 16" using lt by (simp add: div_less_iff_less_mult)
  show "hex_val (hex_digit (uint b div 16)) = Some (uint b div 16)"
    using lo hi by (rule hex_val_digit)
  show "hex_val (hex_digit (uint b mod 16)) = Some (uint b mod 16)"
    by (rule hex_val_digit) simp_all
qed

lemma int_hex_bytes_hex:
  "int_hex acc (bytes_hex xs) = Some (acc * 256 ^ length xs + le_int (rev xs))"
proof (induction xs arbitrary: acc)
  case Nil
  show ?case by (simp add: bytes_hex_def)
next
  case (Cons x xs)
  have split: "16 * (16 * acc + uint x div 16) + uint x mod 16 = 256 * acc + uint x"
    by (simp add: distrib_left)
  have "int_hex acc (bytes_hex (x # xs))
          = int_hex (16 * (16 * acc + uint x div 16) + uint x mod 16) (bytes_hex xs)"
    by (simp add: bytes_hex_def byte_digits)
  also have "\<dots> = Some ((256 * acc + uint x) * 256 ^ length xs + le_int (rev xs))"
    unfolding split by (rule Cons.IH)
  also have "(256 * acc + uint x) * 256 ^ length xs + le_int (rev xs)
               = acc * 256 ^ length (x # xs) + le_int (rev (x # xs))"
    by (simp add: le_int_append distrib_right)
  finally show ?case .
qed

lemma list16:
  assumes "length xs = 16"
  shows "\<exists>a0 a1 a2 a3 a4 a5 a6 a7 a8 a9 a10 a11 a12 a13 a14 a15.
           xs = [a0, a1, a2, a3, a4, a5, a6, a7, a8, a9, a10, a11, a12, a13, a14, a15]"
proof -
  have "xs = map ((!) xs) [0..<16]" using map_nth [of xs] assms by simp
  also have "[0..<16] = [0, 1, 2, 3, 4, 5, 6, 7, 8, 9, 10, 11, 12, 13, 14, 15 :: nat]"
    by (simp add: upt_rec)
  finally have "xs = [xs ! 0, xs ! 1, xs ! 2, xs ! 3, xs ! 4, xs ! 5, xs ! 6, xs ! 7,
               xs ! 8, xs ! 9, xs ! 10, xs ! 11, xs ! 12, xs ! 13, xs ! 14, xs ! 15]" by simp
  then show ?thesis by blast
qed

lemma format_4_bytes: "format_0x 8 (le_int [a, b, c, d]) = bytes_hex [d, c, b, a]"
  using format_0x_le_int [of "[a, b, c, d]"] by simp

lemma format_2_bytes: "format_0x 4 (le_int [a, b]) = bytes_hex [b, a]"
  using format_0x_le_int [of "[a, b]"] by simp

lemma guid_format_explicit:
  "guid_format (le_int [a0, a1, a2, a3], le_int [a4, a5], le_int [a6, a7],
                [a8, a9, a10, a11, a12, a13, a14, a15])
   = bytes_hex [a3, a2, a1, a0] @ ''-'' @ bytes_hex [a5, a4] @ ''-'' @ bytes_hex [a7, a6] @ ''-'' @
     bytes_hex [a8, a9] @ ''-'' @ bytes_hex [a10, a11, a12, a13, a14, a15]"
proof -
  have t: "take 4 (bytes_hex [a8, a9, a10, a11, a12, a13, a14, a15]) = bytes_hex [a8, a9]"
    and d: "drop 4 (bytes_hex [a8, a9, a10, a11, a12, a13, a14, a15])
              = bytes_hex [a10, a11, a12, a13, a14, a15]"
    by (simp_all add: bytes_hex_def)
  show ?thesis
    by (simp only: guid_format_def prod.case format_4_bytes format_2_bytes t d)
qed

lemma UUID_hex_groups:
  assumes "length (A @ B @ C @ D @ E) = 16"
  shows "UUID (bytes_hex A @ ''-'' @ bytes_hex B @ ''-'' @ bytes_hex C @ ''-'' @
               bytes_hex D @ ''-'' @ bytes_hex E)
         = Inr (le_int (rev (A @ B @ C @ D @ E)))"
proof -
  have f: "filter (\<lambda>c. c \<noteq> CHR ''-'')
             (bytes_hex A @ ''-'' @ bytes_hex B @ ''-'' @ bytes_hex C @ ''-'' @
              bytes_hex D @ ''-'' @ bytes_hex E)
           = bytes_hex (A @ B @ C @ D @ E)"
    by (simp add: filter_bytes_hex bytes_hex_append)
  have l: "length (bytes_hex (A @ B @ C @ D @ E)) = 32" using assms by simp
  show ?thesis unfolding UUID_def f Let_def using l
    by (simp add: int_hex_bytes_hex del: length_append)
qed

lemma region_facts:
  assumes "length region = 16"
  shows "unpack_IHH8s region
           = Inr (le_int (slice 0 4 region), le_int (slice 4 6 region),
                  le_int (slice 6 8 region), slice 8 16 region)"
    and "guid_format (le_int (slice 0 4 region), le_int (slice 4 6 region),
                      le_int (slice 6 8 region), slice 8 16 region)
           = bytes_hex (rev (slice 0 4 region)) @ ''-'' @ bytes_hex (rev (slice 4 6 region)) @ ''-'' @
             bytes_hex (rev (slice 6 8 region)) @ ''-'' @ bytes_hex (slice 8 10 region) @ ''-'' @
             bytes_hex (slice 10 16 region)"
    and "guid_bytes region
           = rev (slice 0 4 region) @ rev (slice 4 6 region) @ rev (slice 6 8 region) @
             slice 8 10 region @ slice 10 16 region"
    and "length (guid_bytes region) = 16"
proof -
  obtain a0 a1 a2 a3 a4 a5 a6 a7 a8 a9 a10 a11 a12 a13 a14 a15
    where r: "region = [a0, a1, a2, a3, a4, a5, a6, a7, a8, a9, a10, a11, a12, a13, a14, a15]"
    using list16 [OF assms] by blast
  show "unpack_IHH8s region
           = Inr (le_int (slice 0 4 region), le_int (slice 4 6 region),
                  le_int (slice 6 8 region), slice 8 16 region)"
    using assms by (simp add: unpack_IHH8s_def)
  show "guid_format (le_int (slice 0 4 region), le_int (slice 4 6 region),
                      le_int (slice 6 8 region), slice 8 16 region)
           = bytes_hex (rev (slice 0 4 region)) @ ''-'' @ bytes_hex (rev (slice 4 6 region)) @ ''-'' @
             bytes_hex (rev (slice 6 8 region)) @ ''-'' @ bytes_hex (slice 8 10 region) @ ''-'' @
             bytes_hex (slice 10 16 region)"
    unfolding r by (simp del: le_int.simps add: slice_def clamp_index_def guid_format_explicit)
  show "guid_bytes region
           = rev (slice 0 4 region) @ rev (slice 4 6 region) @ rev (slice 6 8 region) @
             slice 8 10 region @ slice 10 16 region"
    unfolding r by (simp add: guid_bytes_def slice_def clamp_index_def)
  show "length (guid_bytes region) = 16"
    unfolding r by (simp add: guid_bytes_def slice_def clamp_index_def)
qed

lemma guid_of_bytes_region:
  assumes "length region = 16"
  shows "guid_of_bytes region = Inr (le_int (rev (guid_bytes region)))"
proof -
  note f = region_facts [OF assms]
  have len: "length (rev (slice 0 4 region) @ rev (slice 4 6 region) @ rev (slice 6 8 region) @
             slice 8 10 region @ slice 10 16 region) = 16"
    using f(4) unfolding f(3) .
  show ?thesis
    unfolding guid_of_bytes_def f(1) try_bind_def sum.case f(2) UUID_hex_groups [OF len] f(3) ..
qed

lemma guid_bytes_inj:
  assumes "length r1 = 16" and "length r2 = 16" and "guid_bytes r1 = guid_bytes r2"
  shows "r1 = r2"
proof -
  obtain a0 a1 a2 a3 a4 a5 a6 a7 a8 a9 a10 a11 a12 a13 a14 a15
    where r1: "r1 = [a0, a1, a2, a3, a4, a5, a6, a7, a8, a9, a10, a11, a12, a13, a14, a15]"
    using list16 [OF assms(1)] by blast
  obtain b0 b1 b2 b3 b4 b5 b6 b7 b8 b9 b10 b11 b12 b13 b14 b15
    where r2: "r2 = [b0, b1, b2, b3, b4, b5, b6, b7, b8, b9, b10, b11, b12, b13, b14, b15]"
    using list16 [OF assms(2)] by blast
  show ?thesis using assms(3) unfolding r1 r2
    by (simp add: guid_bytes_def slice_def clamp_index_def)
qed

lemma guid_of_bytes_inj:
  assumes "length r1 = 16" and "length r2 = 16"
    and "guid_of_bytes r1 = Inr g" and "guid_of_bytes r2 = Inr g"
  shows "r1 = r2"
proof -
  have "le_int (rev (guid_bytes r1)) = le_int (rev (guid_bytes r2))"
    using assms(3,4) by (simp add: guid_of_bytes_region assms(1,2))
  moreover have "length (rev (guid_bytes r1)) = length (rev (guid_bytes r2))"
    by (simp add: region_facts(4) assms(1,2))
  ultimately have "rev (guid_bytes r1) = rev (guid_bytes r2)" by (rule le_int_inj [rotated])
  then have "guid_bytes r1 = guid_bytes r2" by simp
  then show ?thesis by (rule guid_bytes_inj [OF assms(1,2)])
qed

lemma try_bind_Inr: "try_bind r f = Inr v \<Longrightarrow> \<exists>x. r = Inr x \<and> f x = Inr v"
  by (cases r) (simp_all add: try_bind_def)

lemma decode_plan_body_guids:
  assumes "decode_plan_body body = Inr (Some p)"
  shows "36 \<le> length body \<and> guid_of_bytes (slice 0 16 body) = Inr (job_guid p) \<and>
         guid_of_bytes (slice 16 32 body) = Inr (plan_guid p)"
proof -
  have "\<exists>jp pp. unpack_IHH8s (slice 0 16 body) = Inr jp \<and>
           unpack_IHH8s (slice 16 32 body) = Inr pp \<and>
           UUID (guid_format jp) = Inr (job_guid p) \<and>
           UUID (guid_format pp) = Inr (plan_guid p) \<and> 36 \<le> length body"
    using assms unfolding decode_plan_body_def Let_def
    by (auto dest!: try_bind_Inr split: if_splits prod.splits)
  then show ?thesis by (auto simp: guid_of_bytes_def try_bind_def)
qed

lemma UUID_region:
  assumes "length region = 16"
  shows "UUID (guid_format (le_int (slice 0 4 region), le_int (slice 4 6 region),
                            le_int (slice 6 8 region), slice 8 16 region))
         = Inr (le_int (rev (guid_bytes region)))"
  using guid_of_bytes_region [OF assms] region_facts(1) [OF assms]
  by (simp add: guid_of_bytes_def try_bind_def)

lemma well_formed_plan_decodes:
  assumes "well_formed_plan body"
  shows "\<exists>p. decode_plan_body body = Inr (Some p)"
proof -
  define L where "L = le_int (slice 32 36 body)"
  have len: "36 \<le> length body" and room: "36 + L + 44 \<le> int (length body)"
    using assms by (simp_all add: well_formed_plan_def L_def)
  obtain nm where nm: "utf8_decode (slice 36 (36 + L) body) = Inr nm"
    using assms by (auto simp: well_formed_plan_def L_def)
  have L0: "0 \<le> L" using le_int_bounds [of "slice 32 36 body"] by (simp add: L_def)
  have l1: "length (slice 0 16 body) = 16" and l2: "length (slice 16 32 body) = 16"
    and l3: "length (slice 32 36 body) = 4"
    using len by (simp_all add: slice_length)
  have l4: "length (slice (36 + L) (36 + L + 24) body) = 24"
    using slice_length [of "36 + L" "36 + L + 24" body] L0 room by simp
  have l5: "length (slice (36 + L + 24) (36 + L + 24 + 8) body) = 8"
    using slice_length [of "36 + L + 24" "36 + L + 24 + 8" body] L0 room by simp
  have l6: "length (slice (36 + L + 24 + 8) (36 + L + 24 + 8 + 4) body) = 4"
    using slice_length [of "36 + L + 24 + 8" "36 + L + 24 + 8 + 4" body] L0 room by simp
  have l7: "length (slice (36 + L + 24 + 8 + 4) (36 + L + 24 + 8 + 4 + 8) body) = 8"
    using slice_length [of "36 + L + 24 + 8 + 4" "36 + L + 24 + 8 + 4 + 8" body] L0 room by simp
  have u1: "unpack_I (slice 32 36 body) = Inr L" using l3 by (simp add: unpack_I_def L_def)
  show ?thesis
    unfolding decode_plan_body_def Let_def
    using len nm l4 l5 l6 l7
    by (simp add: region_facts(1) [OF l1] region_facts(1) [OF l2] u1 try_bind_def
          UUID_region [OF l1] UUID_region [OF l2]
          unpack_ddd_def unpack_ii_def unpack_i_def unpack_d_def)
qed

text \<open>
  Claim C7. For every well-formed plan record \<^verbatim>\<open>_decode_plan_info\<close> returns a record;
  its \<^verbatim>\<open>job_guid\<close> is the UUID made from bytes 0 to 15 and its \<^verbatim>\<open>plan_guid\<close> the UUID
  made from bytes 16 to 31 (the number whose bytes, most significant first, are
  \<open>guid_bytes\<close> of the region); and when the two regions differ the two UUIDs differ.
\<close>

theorem plan_guids_from_their_regions:
  assumes "well_formed_plan body"
  shows "\<exists>p. decode_plan_info (Some body) = Inr (Some p) \<and>
           guid_of_bytes (slice 0 16 body) = Inr (job_guid p) \<and>
           guid_of_bytes (slice 16 32 body) = Inr (plan_guid p) \<and>
           job_guid p = le_int (rev (guid_bytes (slice 0 16 body))) \<and>
           plan_guid p = le_int (rev (guid_bytes (slice 16 32 body))) \<and>
           (slice 0 16 body \<noteq> slice 16 32 body \<longrightarrow> job_guid p \<noteq> plan_guid p)"
proof -
  obtain p where b: "decode_plan_body body = Inr (Some p)"
    using well_formed_plan_decodes [OF assms] by blast
  have i: "decode_plan_info (Some body) = Inr (Some p)"
    using b by (simp add: decode_plan_info_def)
  note g = decode_plan_body_guids [OF b]
  have l1: "length (slice 0 16 body) = 16" and l2: "length (slice 16 32 body) = 16"
    using g by (simp_all add: slice_length)
  have j: "job_guid p = le_int (rev (guid_bytes (slice 0 16 body)))"
    using g guid_of_bytes_region [OF l1] by simp
  have q: "plan_guid p = le_int (rev (guid_bytes (slice 16 32 body)))"
    using g guid_of_bytes_region [OF l2] by simp
  have d: "slice 0 16 body \<noteq> slice 16 32 body \<longrightarrow> job_guid p \<noteq> plan_guid p"
  proof (intro impI notI)
    assume ne: "slice 0 16 body \<noteq> slice 16 32 body" and eq: "job_guid p = plan_guid p"
    have "guid_of_bytes (slice 16 32 body) = Inr (job_guid p)" using g eq by simp
    then have "slice 0 16 body = slice 16 32 body"
      using guid_of_bytes_inj [OF l1 l2, of "job_guid p"] g by blast
    then show False using ne by simp
  qed
  show ?thesis using i g j q d by blast
qed

lemma plan_buffer_decodes:
  "decode_plan_info (Some plan_buffer)
     = Inr (Some \<lparr>job_guid = 5332529519625630388842565492001345296,
                  plan_guid = 26683579993096279076740580075955429152,
                  plan_name = [65, 66], size_x = 0, size_y = 0, material_thickness = 0,
                  total_runs = 0, total_parts = 0, plan_state = 0, estimated_cut_time = 0,
                  parameter_file = None\<rparr>)"
  by code_simp

lemma plan_buffer_regions: "slice 0 16 plan_buffer \<noteq> slice 16 32 plan_buffer"
  by (simp add: plan_buffer_def slice_def clamp_index_def)

lemma plan_buffer_well_formed: "well_formed_plan plan_buffer"
  unfolding well_formed_plan_def
proof (intro conjI)
  show "36 \<le> length plan_buffer" by (simp add: plan_buffer_def)
  have "utf8_decode (slice 36 (36 + le_int (slice 32 36 plan_buffer)) plan_buffer) = Inr [65, 66]"
    by code_simp
  then show "\<exists>nm. utf8_decode (slice 36 (36 + le_int (slice 32 36 plan_buffer)) plan_buffer) = Inr nm"
    by blast
  show "36 + le_int (slice 32 36 plan_buffer) + 44 \<le> int (length plan_buffer)"
    by (simp add: plan_buffer_def slice_def clamp_index_def)
qed

theorem plan_guids_from_their_regions_witness:
  "well_formed_plan plan_buffer \<and>
   decode_plan_info (Some plan_buffer)
     = Inr (Some \<lparr>job_guid = 5332529519625630388842565492001345296,
                  plan_guid = 26683579993096279076740580075955429152,
                  plan_name = [65, 66], size_x = 0, size_y = 0, material_thickness = 0,
                  total_runs = 0, total_parts = 0, plan_state = 0, estimated_cut_time = 0,
                  parameter_file = None\<rparr>) \<and>
   slice 0 16 plan_buffer \<noteq> slice 16 32 plan_buffer \<and>
   guid_of_bytes (slice 0 16 plan_buffer) = Inr 5332529519625630388842565492001345296 \<and>
   guid_of_bytes (slice 16 32 plan_buffer) = Inr 26683579993096279076740580075955429152 \<and>
   (5332529519625630388842565492001345296 :: int) \<noteq> 26683579993096279076740580075955429152"
  using plan_guids_from_their_regions [OF plan_buffer_well_formed] plan_buffer_well_formed
    plan_buffer_decodes plan_buffer_regions
  by auto

lemma split_on_no_sep: "c \<notin> set a \<Longrightarrow> split_on c a = [a]"
  by (induction a) auto

lemma split_on_sep: "c \<notin> set a \<Longrightarrow> split_on c (a @ c # rest) = a # split_on c rest"
  by (induction a) auto

lemma split_five:
  "split_on (CHR ''-'') (bytes_hex A @ ''-'' @ bytes_hex B @ ''-'' @ bytes_hex C @ ''-'' @
                         bytes_hex D @ ''-'' @ bytes_hex E)
   = [bytes_hex A, bytes_hex B, bytes_hex C, bytes_hex D, bytes_hex E]"
  by (simp add: split_on_sep split_on_no_sep hyphen_not_in_bytes_hex)

text \<open>
  Claim C8, as the code has it. A region of 16 bytes is unpacked little-endian into a
  32-bit number, two 16-bit numbers and 8 raw bytes, and the text has five groups of 8, 4,
  4, 4 and 12 hexadecimal digits. The first three are the numbers in 8, 4 and 4 digits
  (their bytes in reverse order). The fourth group is the first 4 digits of the
  hexadecimal text of the 8 raw bytes, that is the first 2 raw bytes, and the fifth group
  is the other 12 digits, the last 6 raw bytes.
\<close>

theorem guid_text_groups:
  assumes "length region = 16"
  shows "unpack_IHH8s region
           = Inr (le_int (slice 0 4 region), le_int (slice 4 6 region),
                  le_int (slice 6 8 region), slice 8 16 region) \<and>
         guid_groups region
           = Inr [bytes_hex (rev (slice 0 4 region)), bytes_hex (rev (slice 4 6 region)),
                  bytes_hex (rev (slice 6 8 region)), bytes_hex (slice 8 10 region),
                  bytes_hex (slice 10 16 region)] \<and>
         bytes_hex (rev (slice 0 4 region)) = format_0x 8 (le_int (slice 0 4 region)) \<and>
         bytes_hex (slice 8 10 region) = take 4 (bytes_hex (slice 8 16 region)) \<and>
         bytes_hex (slice 10 16 region) = drop 4 (bytes_hex (slice 8 16 region)) \<and>
         map length [bytes_hex (rev (slice 0 4 region)), bytes_hex (rev (slice 4 6 region)),
                     bytes_hex (rev (slice 6 8 region)), bytes_hex (slice 8 10 region),
                     bytes_hex (slice 10 16 region)] = [8, 4, 4, 4, 12]"
proof -
  note f = region_facts [OF assms]
  have g: "guid_groups region
           = Inr [bytes_hex (rev (slice 0 4 region)), bytes_hex (rev (slice 4 6 region)),
                  bytes_hex (rev (slice 6 8 region)), bytes_hex (slice 8 10 region),
                  bytes_hex (slice 10 16 region)]"
    unfolding guid_groups_def f(1) try_bind_def sum.case f(2) split_five ..
  have l: "map length [bytes_hex (rev (slice 0 4 region)), bytes_hex (rev (slice 4 6 region)),
                     bytes_hex (rev (slice 6 8 region)), bytes_hex (slice 8 10 region),
                     bytes_hex (slice 10 16 region)] = [8, 4, 4, 4, 12]"
    using assms by (simp add: slice_length)
  obtain a0 a1 a2 a3 a4 a5 a6 a7 a8 a9 a10 a11 a12 a13 a14 a15
    where r: "region = [a0, a1, a2, a3, a4, a5, a6, a7, a8, a9, a10, a11, a12, a13, a14, a15]"
    using list16 [OF assms] by blast
  have h1: "bytes_hex (rev (slice 0 4 region)) = format_0x 8 (le_int (slice 0 4 region))"
    unfolding r by (simp del: le_int.simps add: slice_def clamp_index_def format_4_bytes)
  have h4: "bytes_hex (slice 8 10 region) = take 4 (bytes_hex (slice 8 16 region))"
    and h5: "bytes_hex (slice 10 16 region) = drop 4 (bytes_hex (slice 8 16 region))"
    unfolding r by (simp_all add: slice_def clamp_index_def bytes_hex_def)
  show ?thesis using f(1) g h1 h4 h5 l by blast
qed

theorem guid_text_groups_witness:
  "length guid_region = 16 \<and>
   guid_groups guid_region = Inr [''03020100'', ''0504'', ''0706'', ''0809'', ''0a0b0c0d0e0f'']"
proof -
  have l: "length guid_region = 16" by (simp add: guid_region_def)
  have e: "[bytes_hex (rev (slice 0 4 guid_region)), bytes_hex (rev (slice 4 6 guid_region)),
            bytes_hex (rev (slice 6 8 guid_region)), bytes_hex (slice 8 10 guid_region),
            bytes_hex (slice 10 16 guid_region)]
           = [''03020100'', ''0504'', ''0706'', ''0809'', ''0a0b0c0d0e0f'']"
    by code_simp
  show ?thesis using l guid_text_groups [OF l] e by simp
qed

text \<open>
  The claim as stated fails on the region of the bytes 0 to 15: the fourth group is
  \<^verbatim>\<open>0809\<close>, while the first 4 of the 8 raw bytes are \<^verbatim>\<open>08090a0b\<close> in hexadecimal; the
  fifth group is \<^verbatim>\<open>0a0b0c0d0e0f\<close>, while the last 4 raw bytes are \<^verbatim>\<open>0c0d0e0f\<close>.
\<close>

theorem guid_fourth_group_counterexample:
  "guid_groups guid_region = Inr [''03020100'', ''0504'', ''0706'', ''0809'', ''0a0b0c0d0e0f''] \<and>
   slice 8 16 guid_region = [8, 9, 10, 11, 12, 13, 14, 15] \<and>
   bytes_hex (take 4 (slice 8 16 guid_region)) = ''08090a0b'' \<and>
   bytes_hex (drop 4 (slice 8 16 guid_region)) = ''0c0d0e0f'' \<and>
   ''0809'' \<noteq> ''08090a0b'' \<and> ''0a0b0c0d0e0f'' \<noteq> ''0c0d0e0f''"
  by code_simp

end
